theory Spec2Isabelle
  imports
    Main
    "HOL-Library.Sublist"
    "HOL-Library.Char_ord"
    "HOL-Library.List_Lexorder"
    "HOL-Library.Product_Lexorder"
    "HOL-Library.Option_ord"
begin

section \<open>Cells, text primitives and timestamps\<close>

text \<open>
  A table cell is a Python scalar. The model covers the cells a text-sourced table holds:
  \<open>None\<close>, the float \<open>nan\<close>, and ASCII text. Numeric, boolean and non-ASCII cells are
  outside the modelled input domain. A \<open>pd.Timestamp\<close> is the number of nanoseconds since
  the epoch (timezone-naive); \<open>pd.NaT\<close> is \<open>None\<close> of \<open>timestamp option\<close>.
\<close>

datatype cell = CNone | CNaN | CStr string

type_synonym timestamp = int

datatype error = KeyError | ValueError

text \<open>\<open>value is None or (isinstance(value, float) and pd.isna(value))\<close>\<close>

definition is_missing :: "cell \<Rightarrow> bool" where
  "is_missing v = (case v of CNone \<Rightarrow> True | CNaN \<Rightarrow> True | CStr _ \<Rightarrow> False)"

text \<open>\<open>pd.notna\<close> on a scalar cell.\<close>

definition notna :: "cell \<Rightarrow> bool" where
  "notna v = (case v of CNone \<Rightarrow> False | CNaN \<Rightarrow> False | CStr _ \<Rightarrow> True)"

text \<open>\<open>Series.fillna(default)\<close>, cell by cell.\<close>

definition fillna :: "cell \<Rightarrow> cell \<Rightarrow> cell" where
  "fillna dflt v = (if notna v then v else dflt)"

definition py_str :: "cell \<Rightarrow> string" where
  "py_str v = (case v of CNone \<Rightarrow> ''None'' | CNaN \<Rightarrow> ''nan'' | CStr s \<Rightarrow> s)"

text \<open>
  \<open>repr\<close> of a \<open>str\<close>: single quotes unless the text has a single quote and no double
  quote; backslash and the chosen quote are escaped, tab, newline and carriage return
  get their letter escapes, every other non-printable character is written \<open>\xNN\<close>.
\<close>

definition hex_digit :: "nat \<Rightarrow> char" where
  "hex_digit n = (''0123456789abcdef'' ! (n mod 16))"

definition repr_char :: "char \<Rightarrow> char \<Rightarrow> string" where
  "repr_char q c =
     (if c = q \<or> c = CHR 0x5C then [CHR 0x5C, c]
      else if c = CHR 0x09 then [CHR 0x5C, CHR ''t'']
      else if c = CHR 0x0A then [CHR 0x5C, CHR ''n'']
      else if c = CHR 0x0D then [CHR 0x5C, CHR ''r'']
      else if (of_char c :: nat) < 32 \<or> 127 \<le> (of_char c :: nat)
        then [CHR 0x5C, CHR ''x'', hex_digit (of_char c div 16), hex_digit (of_char c)]
      else [c])"

definition repr_str :: "string \<Rightarrow> string" where
  "repr_str s =
     (let q = (if CHR 0x27 \<in> set s \<and> CHR 0x22 \<notin> set s then CHR 0x22 else CHR 0x27)
      in q # concat (map (repr_char q) s) @ [q])"

definition py_repr :: "cell \<Rightarrow> string" where
  "py_repr v = (case v of CNone \<Rightarrow> ''None'' | CNaN \<Rightarrow> ''nan'' | CStr s \<Rightarrow> repr_str s)"

text \<open>
  The whitespace of \<open>str.strip()\<close> and of the regular expression class \<open>\s\<close> on ASCII
  text: tab, newline, vertical tab, form feed, carriage return, the four separators
  \<open>0x1C\<close>..\<open>0x1F\<close> and the space.
\<close>

definition is_space :: "char \<Rightarrow> bool" where
  "is_space c =
     (c \<in> set [CHR 0x09, CHR 0x0A, CHR 0x0B, CHR 0x0C, CHR 0x0D,
                CHR 0x1C, CHR 0x1D, CHR 0x1E, CHR 0x1F, CHR 0x20])"

definition is_digit :: "char \<Rightarrow> bool" where
  "is_digit c = (c \<in> set ''0123456789'')"

definition str_strip :: "string \<Rightarrow> string" where
  "str_strip s = rev (dropWhile is_space (rev (dropWhile is_space s)))"

definition to_upper :: "char \<Rightarrow> char" where
  "to_upper c =
     (case map_of (zip ''abcdefghijklmnopqrstuvwxyz'' ''ABCDEFGHIJKLMNOPQRSTUVWXYZ'') c of
        Some u \<Rightarrow> u | None \<Rightarrow> c)"

definition to_lower :: "char \<Rightarrow> char" where
  "to_lower c =
     (case map_of (zip ''ABCDEFGHIJKLMNOPQRSTUVWXYZ'' ''abcdefghijklmnopqrstuvwxyz'') c of
        Some l \<Rightarrow> l | None \<Rightarrow> c)"

definition str_upper :: "string \<Rightarrow> string" where
  "str_upper s = map to_upper s"

definition str_lower :: "string \<Rightarrow> string" where
  "str_lower s = map to_lower s"

text \<open>
  \<open>s.replace(old, new)\<close> for a non-empty \<open>old\<close>: the occurrences are replaced from the
  left and do not overlap.
\<close>

fun str_replace :: "string \<Rightarrow> string \<Rightarrow> string \<Rightarrow> string" where
  "str_replace old new [] = []"
| "str_replace old new (c # cs) =
     (if old \<noteq> [] \<and> prefix old (c # cs)
      then new @ str_replace old new (drop (length old - 1) cs)
      else c # str_replace old new cs)"

section \<open>Normalization (normalization.py)\<close>

record LotNormalization =
  canonical_lot_id :: "string option"
  status :: string
  reason :: "string option"

text \<open>\<open>re.sub(r"[\s\-_]+", "", corrected)\<close>: every run of separators is deleted.\<close>

definition is_separator :: "char \<Rightarrow> bool" where
  "is_separator c = (is_space c \<or> c = CHR ''-'' \<or> c = CHR ''_'')"

definition remove_separators :: "string \<Rightarrow> string" where
  "remove_separators s = filter (\<lambda>c. \<not> is_separator c) s"

text \<open>
  \<open>re.sub(r"^LOT(\d{8})(\d{3})$", r"LOT-\1-\2", compact)\<close>. The text it is applied to has
  no newline left, so \<open>$\<close> is the end of the text.
\<close>

definition restructure :: "string \<Rightarrow> string" where
  "restructure compact =
     (if length compact = 14 \<and> take 3 compact = ''LOT'' \<and> list_all is_digit (drop 3 compact)
      then ''LOT-'' @ take 8 (drop 3 compact) @ ''-'' @ drop 11 compact
      else compact)"

text \<open>
  \<open>LOT_PATTERN = re.compile(r"LOT[-_ ]?(\d{8})[-_ ]?(\d{3})")\<close>. \<open>opt_sep\<close> lists the ways
  \<open>[-_ ]?\<close> can consume input, the greedy one first; \<open>first_some\<close> backtracks through
  them. \<open>lot_pattern_match\<close> matches at the start of the text, \<open>lot_pattern_search\<close> is
  \<open>LOT_PATTERN.search\<close>: the leftmost position where a match starts.
\<close>

definition take_digits :: "nat \<Rightarrow> string \<Rightarrow> (string \<times> string) option" where
  "take_digits n s =
     (if n \<le> length s \<and> list_all is_digit (take n s) then Some (take n s, drop n s) else None)"

definition opt_sep :: "string \<Rightarrow> string list" where
  "opt_sep s = (case s of [] \<Rightarrow> [[]] | c # t \<Rightarrow> if c \<in> set ''-_ '' then [t, s] else [s])"

fun first_some :: "('a \<Rightarrow> 'b option) \<Rightarrow> 'a list \<Rightarrow> 'b option" where
  "first_some f [] = None"
| "first_some f (x # xs) = (case f x of Some y \<Rightarrow> Some y | None \<Rightarrow> first_some f xs)"

definition lot_pattern_match :: "string \<Rightarrow> (string \<times> string) option" where
  "lot_pattern_match s =
     (if take 3 s = ''LOT''
      then first_some
        (\<lambda>r1. case take_digits 8 r1 of
                 None \<Rightarrow> None
               | Some (g1, r2) \<Rightarrow>
                   first_some
                     (\<lambda>r3. case take_digits 3 r3 of
                              None \<Rightarrow> None
                            | Some (g2, r4) \<Rightarrow> Some (g1, g2))
                     (opt_sep r2))
        (opt_sep (drop 3 s))
      else None)"

fun lot_pattern_search :: "string \<Rightarrow> (string \<times> string) option" where
  "lot_pattern_search [] = lot_pattern_match []"
| "lot_pattern_search (c # cs) =
     (case lot_pattern_match (c # cs) of
        Some g \<Rightarrow> Some g
      | None \<Rightarrow> lot_pattern_search cs)"

definition normalize_lot_id :: "cell \<Rightarrow> LotNormalization" where
  "normalize_lot_id raw_lot_id =
     (if is_missing raw_lot_id
      then \<lparr>canonical_lot_id = None, status = ''needs_review'', reason = Some ''Lot ID is empty''\<rparr>
      else
        let raw_text = str_upper (str_strip (py_str raw_lot_id)) in
        if raw_text = []
        then \<lparr>canonical_lot_id = None, status = ''needs_review'',
               reason = Some ''Lot ID is blank''\<rparr>
        else
          let corrected = str_replace ''L0T'' ''LOT'' raw_text;
              compact = remove_separators corrected;
              structured = restructure compact
          in case lot_pattern_search structured of
               None \<Rightarrow>
                 \<lparr>canonical_lot_id = None, status = ''needs_review'',
                  reason = Some (''Lot ID does not match expected pattern: '' @ py_repr raw_lot_id)\<rparr>
             | Some (g1, g2) \<Rightarrow>
                 \<lparr>canonical_lot_id = Some (''LOT-'' @ g1 @ ''-'' @ g2), status = ''ok'',
                  reason = None\<rparr>)"

text \<open>
  The text \<open>normalize_lot_id\<close> restructures and matches (the local \<open>compact\<close> of the
  source): the lot text trimmed, uppercased, with every literal \<open>L0T\<close> corrected to \<open>LOT\<close>
  and every separator removed, wherever it stands. Two lot texts with the same compact
  text differ only by separators, by letter case or by the \<open>L0T\<close> typo.
\<close>

definition compact_lot_text :: "string \<Rightarrow> string" where
  "compact_lot_text s = remove_separators (str_replace ''L0T'' ''LOT'' (str_upper (str_strip s)))"

text \<open>
  \<open>parse_mixed_date\<close>. \<open>pd.to_datetime(value, errors="coerce", utc=False)\<close> belongs to
  pandas, not to this repository: it is the parameter \<open>to_datetime\<close>, which returns a
  timestamp or \<open>NaT\<close>. \<open>Timestamp.normalize()\<close> resets the time of day to midnight.
  \<open>parse_mixed_date\<close> is the pair the function returns; \<open>parse_mixed_date_outcome\<close>
  below is the same function with the way the pandas call can end written out.
\<close>

definition day_ns :: int where
  "day_ns = 86400000000000"

definition ts_normalize :: "timestamp \<Rightarrow> timestamp" where
  "ts_normalize t = t - t mod day_ns"

definition parse_mixed_date ::
  "(cell \<Rightarrow> timestamp option) \<Rightarrow> cell \<Rightarrow> timestamp option \<times> string option" where
  "parse_mixed_date to_datetime v =
     (if is_missing v then (None, Some ''Date is empty'')
      else case to_datetime v of
             None \<Rightarrow> (None, Some (''Unparseable date value: '' @ py_repr v))
           | Some parsed \<Rightarrow> (Some (ts_normalize parsed), None))"

text \<open>
  The pandas call with its \<open>errors\<close> argument. What pandas reads in a cell is a timestamp
  or nothing; where it reads nothing, \<open>errors="raise"\<close> raises and \<open>errors="coerce"\<close>
  answers \<open>NaT\<close>. (The model of \<open>errors="raise"\<close> takes every cell pandas reads nothing
  in for an invalid one.) \<open>parse_mixed_date_outcome\<close> follows the source statement by
  statement and passes on what the call raises: its only way to fail.
\<close>

datatype errors_mode = errors_raise | errors_coerce

definition pd_to_datetime ::
  "(cell \<Rightarrow> timestamp option) \<Rightarrow> errors_mode \<Rightarrow> cell \<Rightarrow> error + timestamp option" where
  "pd_to_datetime reading errors v =
     (case reading v of
        Some t \<Rightarrow> Inr (Some t)
      | None \<Rightarrow> (case errors of errors_coerce \<Rightarrow> Inr None | errors_raise \<Rightarrow> Inl ValueError))"

definition parse_mixed_date_outcome ::
  "(cell \<Rightarrow> timestamp option) \<Rightarrow> cell \<Rightarrow> error + timestamp option \<times> string option" where
  "parse_mixed_date_outcome reading v =
     (if is_missing v then Inr (None, Some ''Date is empty'')
      else case pd_to_datetime reading errors_coerce v of
             Inl e \<Rightarrow> Inl e
           | Inr None \<Rightarrow> Inr (None, Some (''Unparseable date value: '' @ py_repr v))
           | Inr (Some parsed) \<Rightarrow> Inr (Some (ts_normalize parsed), None))"

text \<open>
  \<open>truthy_issue_flag\<close>. The first branch of the source lets a \<open>bool\<close> through; no cell of
  the model is one, so the definition starts at the second branch.
\<close>

definition truthy_issue_flag :: "cell \<Rightarrow> bool" where
  "truthy_issue_flag v =
     (if is_missing v then False
      else str_lower (str_strip (py_str v)) \<in> set [''yes'', ''y'', ''true'', ''t'', ''1''])"

section \<open>Tables (models.py and the columns of consolidation.py)\<close>

text \<open>
  A conflict record is one row of the table \<open>_detect_conflicts\<close> returns; the source
  triples are (file, sheet, row).
\<close>

record conflict_record =
  canonical_lot_id :: string
  conflict_production_lines :: "string list"
  conflict_ship_statuses :: "string list"
  production_sources :: "(string \<times> string \<times> int) list"
  shipping_sources :: "(string \<times> string \<times> int) list"

text \<open>The rows of the ranking and trending tables of \<open>weekly_summary\<close>.\<close>

record ranking_row =
  production_line :: "string option"
  issue_count :: int
  total_rows :: int
  unique_lots :: int

record trending_row =
  issue_category :: string
  current_count :: int
  previous_count :: int
  delta :: int
  direction :: string

text \<open>
  An input row is what the loader hands over: the three source annotations
  (\<open>load_production_file\<close> and \<open>load_shipping_file\<close> of io.py set them on every row) and
  the named cells of the sheet. The columns of a table are the names its rows have cells
  for; a row with no cell for a column reads \<open>nan\<close> there.
\<close>

record sourced =
  source_file :: string
  source_sheet :: string
  source_row :: int

record raw_row = sourced +
  cells :: "(string \<times> cell) list"

type_synonym dataframe = "raw_row list"

text \<open>
  The columns both \<open>_prepare_production\<close> and \<open>_prepare_shipping\<close> add, then the columns
  of each, then the columns the left join and \<open>consolidate_logs\<close> add. The prepared
  tables of the source keep the sheet's own columns as well. Their values are not read
  again, so the rows of the model leave them out; their names are, by the left join
  (\<open>merge_suffixed_columns\<close> below). \<open>raw_lot_aliases\<close> is \<open>None\<close> in a table that has no
  such column.
\<close>

record prepared_row = sourced +
  raw_lot_id :: cell
  provided_normalized_lot_id :: cell
  date_error_reason :: "string option"
  canonical_lot_id :: "string option"
  lot_normalization_status :: string
  lot_error_reason :: "string option"
  needs_review :: bool
  review_reason :: string
  dataset :: string

record production_row = prepared_row +
  production_line :: cell
  primary_issue :: cell
  line_issue :: bool
  production_date_raw :: cell
  production_date :: "timestamp option"

record shipping_row = prepared_row +
  ship_status :: cell
  ship_date_raw :: cell
  ship_date :: "timestamp option"

record consolidated_row = production_row +
  ship_status :: cell
  ship_date :: "timestamp option"
  shipping_source_file :: "string option"
  shipping_source_sheet :: "string option"
  shipping_source_row :: "int option"
  shipping_raw_lot_id :: cell
  shipping_match_status :: string
  is_problematic_but_shipped :: bool
  has_conflict :: bool
  raw_lot_aliases :: "string list option"

record ConsolidationResult =
  production :: "production_row list"
  shipping :: "shipping_row list"
  consolidated :: "consolidated_row list"
  flagged_rows :: "consolidated_row list"
  conflict_rows :: "conflict_record list"

record AppConfig =
  issue_rule_text :: string
  not_found_shipping_label :: string
  comparison_period_days :: int

record WeeklySummaryResult =
  week_start :: timestamp
  week_end :: timestamp
  ranking :: "ranking_row list"
  trending :: "trending_row list"

section \<open>Row preparation (consolidation.py)\<close>

definition columns :: "dataframe \<Rightarrow> string list" where
  "columns df = concat (map (\<lambda>r. map fst (cells r)) df)"

definition cell_of :: "raw_row \<Rightarrow> string \<Rightarrow> cell" where
  "cell_of r name = (case map_of (cells r) name of None \<Rightarrow> CNaN | Some c \<Rightarrow> c)"

text \<open>\<open>_coalesce_column\<close>: the first candidate that is a column, or a column of defaults.\<close>

fun coalesce_column :: "dataframe \<Rightarrow> string list \<Rightarrow> cell \<Rightarrow> cell list" where
  "coalesce_column df [] dflt = replicate (length df) dflt"
| "coalesce_column df (name # candidates) dflt =
     (if name \<in> set (columns df) then map (\<lambda>r. cell_of r name) df
      else coalesce_column df candidates dflt)"

definition AMBIGUOUS_LOT_MATCH :: string where
  "AMBIGUOUS_LOT_MATCH =
     ''Ambiguous lot match: provided normalized_lot_id conflicts with raw lot normalization''"

text \<open>\<open>Series.notna()\<close> and \<open>Series.fillna("")\<close> on a column of optional reasons.\<close>

definition opt_notna :: "'a option \<Rightarrow> bool" where
  "opt_notna x = (case x of None \<Rightarrow> False | Some _ \<Rightarrow> True)"

definition fillna_empty :: "string option \<Rightarrow> string" where
  "fillna_empty x = (case x of None \<Rightarrow> [] | Some s \<Rightarrow> s)"

text \<open>
  \<open>provided.map(lambda x: normalize_lot_id(x).canonical_lot_id if pd.notna(x) else None)\<close>
  and the mask \<open>provided.notna() & canonical.notna() & provided.ne(canonical)\<close>.
\<close>

definition provided_canonical :: "cell \<Rightarrow> string option" where
  "provided_canonical x =
     (if notna x then LotNormalization.canonical_lot_id (normalize_lot_id x) else None)"

definition lot_mismatch :: "string option \<Rightarrow> string option \<Rightarrow> bool" where
  "lot_mismatch provided canonical =
     (opt_notna provided \<and> opt_notna canonical \<and> provided \<noteq> canonical)"

text \<open>
  The columns both preparations derive for one row: the parsed date, then the fields of
  \<open>prepared_row\<close>, with the ambiguity mask applied last (\<open>out.loc[mismatch, ...] = ...\<close>
  over the values computed before it).
\<close>

definition prepare_common ::
  "(cell \<Rightarrow> timestamp option) \<Rightarrow> raw_row \<Rightarrow> cell \<Rightarrow> cell \<Rightarrow> cell \<Rightarrow> string
     \<Rightarrow> timestamp option \<times> prepared_row" where
  "prepare_common to_datetime r lot provided date_raw ds =
     (let (parsed, date_error) = parse_mixed_date to_datetime date_raw;
          normalized = normalize_lot_id lot;
          canonical = LotNormalization.canonical_lot_id normalized;
          mismatch = lot_mismatch (provided_canonical provided) canonical
      in (parsed,
          \<lparr>source_file = source_file r, source_sheet = source_sheet r,
           source_row = source_row r,
           raw_lot_id = lot,
           provided_normalized_lot_id = provided,
           date_error_reason = date_error,
           canonical_lot_id = canonical,
           lot_normalization_status = status normalized,
           lot_error_reason = reason normalized,
           needs_review =
             (if mismatch then True
              else opt_notna date_error \<or> status normalized \<noteq> ''ok''),
           review_reason =
             (if mismatch then AMBIGUOUS_LOT_MATCH
              else fillna_empty date_error @ fillna_empty (reason normalized)),
           dataset = ds\<rparr>))"

text \<open>
  The two preparations: the coalesced columns, zipped back into rows.
  \<open>prepared_row.extend c (production_row.fields ...)\<close> is the row \<open>c\<close> with the columns of
  the production table appended, and likewise for shipping.
\<close>

definition prepare_production ::
  "(cell \<Rightarrow> timestamp option) \<Rightarrow> dataframe \<Rightarrow> production_row list" where
  "prepare_production to_datetime df =
     (let lots = coalesce_column df [''raw_lot_id'', ''lot_id'', ''lot'', ''lot_number''] CNone;
          lines = coalesce_column df [''production_line'', ''line_name'', ''line''] CNone;
          issues =
            coalesce_column df [''primary_issue'', ''issue_category'', ''defect_category''] CNone;
          flags =
            map truthy_issue_flag
              (coalesce_column df [''line_issue'', ''line_issue_flag'', ''issue''] CNone);
          dates = coalesce_column df [''production_date'', ''run_date'', ''date''] CNone;
          provided = coalesce_column df [''normalized_lot_id''] CNone
      in map (\<lambda>(r, lot, line, issue, flag, date_raw, prov).
                let (parsed, common) =
                      prepare_common to_datetime r lot prov date_raw ''production''
                in prepared_row.extend common
                     (production_row.fields line issue flag date_raw parsed))
           (zip df (zip lots (zip lines (zip issues (zip flags (zip dates provided)))))))"

definition prepare_shipping ::
  "(cell \<Rightarrow> timestamp option) \<Rightarrow> dataframe \<Rightarrow> shipping_row list" where
  "prepare_shipping to_datetime df =
     (let lots = coalesce_column df [''raw_lot_id'', ''lot_id'', ''lot'', ''lot_number''] CNone;
          statuses =
            map (fillna (CStr ''On Hold''))
              (coalesce_column df [''ship_status'', ''shipping_status''] CNone);
          dates = coalesce_column df [''ship_date'', ''shipping_date'', ''date''] CNone;
          provided = coalesce_column df [''normalized_lot_id''] CNone
      in map (\<lambda>(r, lot, st, date_raw, prov).
                let (parsed, common) =
                      prepare_common to_datetime r lot prov date_raw ''shipping''
                in prepared_row.extend common (shipping_row.fields st date_raw parsed))
           (zip df (zip lots (zip statuses (zip dates provided)))))"

section \<open>Latest shipping row per lot\<close>

text \<open>
  \<open>DataFrame.drop_duplicates(subset, keep="first")\<close>: of the rows that agree on the key,
  the first stays; the order of the rows that stay is kept.
\<close>

fun drop_duplicates :: "('a \<Rightarrow> 'k) \<Rightarrow> 'a list \<Rightarrow> 'a list" where
  "drop_duplicates key [] = []"
| "drop_duplicates key (x # xs) = x # drop_duplicates key (filter (\<lambda>y. key y \<noteq> key x) xs)"

text \<open>
  \<open>sort_values(["canonical_lot_id", "ship_date"], ascending=[True, False])\<close>: a stable
  sort on the lot, then on the date from the latest to the earliest, \<open>NaT\<close> last.
\<close>

definition ship_sort_key :: "shipping_row \<Rightarrow> string option \<times> nat \<times> int" where
  "ship_sort_key r =
     (canonical_lot_id r,
      case shipping_row.ship_date r of None \<Rightarrow> (1, 0) | Some t \<Rightarrow> (0, - t))"

definition latest_shipping_by_lot :: "shipping_row list \<Rightarrow> shipping_row list" where
  "latest_shipping_by_lot shipping_rows =
     (let valid = filter (\<lambda>r. opt_notna (canonical_lot_id r)) shipping_rows;
          valid = sort_key ship_sort_key valid
      in drop_duplicates canonical_lot_id valid)"

section \<open>Conflict detection\<close>

text \<open>
  \<open>groupby("canonical_lot_id")\<close> over the rows that have a lot: \<open>group_keys\<close> are the
  keys of \<open>.groups\<close>, \<open>get_group\<close> the rows of one lot in their original order.
\<close>

definition group_keys :: "('a prepared_row_scheme) list \<Rightarrow> string list" where
  "group_keys rows = List.map_filter canonical_lot_id rows"

definition get_group :: "string \<Rightarrow> ('a prepared_row_scheme) list \<Rightarrow> ('a prepared_row_scheme) list" where
  "get_group lot rows = filter (\<lambda>r. canonical_lot_id r = Some lot) rows"

text \<open>\<open>Series.dropna().unique()\<close>: the distinct cells that are not missing.\<close>

definition dropna_unique :: "cell list \<Rightarrow> string list" where
  "dropna_unique cs =
     drop_duplicates (\<lambda>s. s)
       (List.map_filter (\<lambda>c. case c of CStr s \<Rightarrow> Some s | _ \<Rightarrow> None) cs)"

text \<open>\<open>rows[["source_file", "source_sheet", "source_row"]].drop_duplicates().to_dict("records")\<close>\<close>

definition source_records :: "('a sourced_scheme) list \<Rightarrow> (string \<times> string \<times> int) list" where
  "source_records rows =
     drop_duplicates (\<lambda>t. t) (map (\<lambda>r. (source_file r, source_sheet r, source_row r)) rows)"

text \<open>
  One pass of the loop of \<open>_detect_conflicts\<close>. A lot that has rows in one table only
  gets \<open>pd.DataFrame()\<close>, a frame with no columns, for the other: \<open>.get\<close> with its default
  reads it as no values, but selecting the three source columns from it raises
  \<open>KeyError\<close>.
\<close>

definition conflict_of_lot ::
  "production_row list \<Rightarrow> shipping_row list \<Rightarrow> string \<Rightarrow> error + conflict_record option" where
  "conflict_of_lot prod_t ship_t lot_id =
     (let in_prod = (lot_id \<in> set (group_keys prod_t));
          in_ship = (lot_id \<in> set (group_keys ship_t));
          prod_rows = (if in_prod then get_group lot_id prod_t else []);
          ship_rows = (if in_ship then get_group lot_id ship_t else []);
          prod_lines = dropna_unique (map production_row.production_line prod_rows);
          ship_statuses = dropna_unique (map shipping_row.ship_status ship_rows)
      in if 1 < length prod_lines \<or> 1 < length ship_statuses
         then (if in_prod \<and> in_ship
               then Inr (Some
                 \<lparr>conflict_record.canonical_lot_id = lot_id,
                  conflict_production_lines = sort prod_lines,
                  conflict_ship_statuses = sort ship_statuses,
                  production_sources = source_records prod_rows,
                  shipping_sources = source_records ship_rows\<rparr>)
               else Inl KeyError)
         else Inr None)"

fun collect_conflicts ::
  "production_row list \<Rightarrow> shipping_row list \<Rightarrow> string list \<Rightarrow> error + conflict_record list" where
  "collect_conflicts prod_t ship_t [] = Inr []"
| "collect_conflicts prod_t ship_t (lot_id # lot_ids) =
     (case conflict_of_lot prod_t ship_t lot_id of
        Inl e \<Rightarrow> Inl e
      | Inr found \<Rightarrow>
          (case collect_conflicts prod_t ship_t lot_ids of
             Inl e \<Rightarrow> Inl e
           | Inr records \<Rightarrow>
               Inr (case found of None \<Rightarrow> records | Some entry \<Rightarrow> entry # records)))"

definition detect_conflicts ::
  "production_row list \<Rightarrow> shipping_row list \<Rightarrow> error + conflict_record list" where
  "detect_conflicts prod_t ship_t =
     collect_conflicts prod_t ship_t (sort (remdups (group_keys prod_t @ group_keys ship_t)))"

section \<open>Consolidation\<close>

text \<open>
  The left join of the production rows with the latest shipping rows on the lot: a
  production row is paired with every right row of its key, or once with missing
  shipping columns when there is none. The last four columns of a joined row do not
  exist yet after the join: \<open>finalize_row\<close> sets the first three of them and
  \<open>consolidate_logs\<close> adds \<open>raw_lot_aliases\<close> to the table it returns as \<open>consolidated\<close>.
\<close>

definition join_row :: "production_row \<Rightarrow> shipping_row option \<Rightarrow> consolidated_row" where
  "join_row p m =
     production_row.extend p
       (consolidated_row.fields
          (case m of None \<Rightarrow> CNaN | Some s \<Rightarrow> shipping_row.ship_status s)
          (case m of None \<Rightarrow> None | Some s \<Rightarrow> shipping_row.ship_date s)
          (map_option source_file m)
          (map_option source_sheet m)
          (map_option source_row m)
          (case m of None \<Rightarrow> CNaN | Some s \<Rightarrow> raw_lot_id s)
          [] False False None)"

definition left_merge :: "production_row list \<Rightarrow> shipping_row list \<Rightarrow> consolidated_row list" where
  "left_merge prod_t latest =
     concat (map (\<lambda>p.
       case filter (\<lambda>s. canonical_lot_id s = canonical_lot_id p) latest of
         [] \<Rightarrow> [join_row p None]
       | matches \<Rightarrow> map (\<lambda>s. join_row p (Some s)) matches) prod_t)"

text \<open>
  The join is on \<open>canonical_lot_id\<close> alone. A column of the production sheet that has
  the name of one of the other six columns of the right-hand table is not overwritten:
  \<open>merge\<close> renames the sheet's column to \<open>name_x\<close> and the joined one to \<open>name_y\<close>, and the
  joined table has no column \<open>name\<close>. The fields of \<open>consolidated_row\<close> hold the joined
  values; in the tables of the result they stand under the suffixed name for every name
  \<open>merge_suffixed_columns\<close> lists. \<open>consolidate_logs\<close> itself reads only \<open>ship_status\<close> of
  the six by name, and raises \<open>KeyError\<close> when the join has renamed it.
\<close>

definition merge_suffixed_columns :: "dataframe \<Rightarrow> string list" where
  "merge_suffixed_columns production_df =
     filter (\<lambda>name. name \<in> set (columns production_df))
       [''ship_status'', ''ship_date'', ''shipping_source_file'', ''shipping_source_sheet'',
        ''shipping_source_row'', ''shipping_raw_lot_id'']"

text \<open>The columns \<open>consolidate_logs\<close> computes on the joined table, row by row.\<close>

definition finalize_row :: "string list \<Rightarrow> consolidated_row \<Rightarrow> consolidated_row" where
  "finalize_row conflict_lots r =
     (let match_status = (if notna (ship_status r) then ''matched'' else ''unmatched'')
      in r\<lparr>shipping_match_status := match_status,
            needs_review := (needs_review r \<or> match_status = ''unmatched''),
            review_reason :=
              (if 0 < length (review_reason r) then review_reason r
               else ''No matching shipping lot found''),
            is_problematic_but_shipped :=
              (line_issue r \<and> ship_status r \<in> set [CStr ''Shipped'', CStr ''Partial'']),
            has_conflict :=
              (case canonical_lot_id r of
                 None \<Rightarrow> False
               | Some lot \<Rightarrow> lot \<in> set conflict_lots)\<rparr>)"

text \<open>
  The alias evidence: for each lot, the \<open>str\<close> of every raw lot id seen with it in either
  prepared table; \<open>alias_lookup.get(lot, set())\<close> sorted.
\<close>

definition alias_pairs :: "('a prepared_row_scheme) list \<Rightarrow> (string \<times> string) list" where
  "alias_pairs rows =
     List.map_filter
       (\<lambda>r. map_option (\<lambda>lot. (lot, py_str (raw_lot_id r))) (canonical_lot_id r)) rows"

definition sorted_aliases :: "(string \<times> string) list \<Rightarrow> string option \<Rightarrow> string list" where
  "sorted_aliases pairs lot =
     (case lot of
        None \<Rightarrow> []
      | Some l \<Rightarrow> sort (remdups (map snd (filter (\<lambda>p. fst p = l) pairs))))"

definition consolidate_logs ::
  "(cell \<Rightarrow> timestamp option) \<Rightarrow> dataframe \<Rightarrow> dataframe \<Rightarrow> bool
     \<Rightarrow> error + ConsolidationResult" where
  "consolidate_logs to_datetime production_df shipping_df include_flagged =
     (let prod_t = prepare_production to_datetime production_df;
          ship_t = prepare_shipping to_datetime shipping_df;
          shipping_latest = latest_shipping_by_lot ship_t;
          merged = left_merge prod_t shipping_latest
      in if ''ship_status'' \<in> set (merge_suffixed_columns production_df) then Inl KeyError
         else case detect_conflicts prod_t ship_t of
           Inl e \<Rightarrow> Inl e
         | Inr conflicts \<Rightarrow>
             (let joined =
                    map (finalize_row (map conflict_record.canonical_lot_id conflicts)) merged;
                  flagged = filter needs_review joined;
                  kept = (if include_flagged then joined
                          else filter (\<lambda>r. \<not> needs_review r) joined);
                  pairs = alias_pairs prod_t @ alias_pairs ship_t
              in Inr \<lparr>production = prod_t, shipping = ship_t,
                      consolidated =
                        map (\<lambda>r. r\<lparr>raw_lot_aliases :=
                                      Some (sorted_aliases pairs (canonical_lot_id r))\<rparr>) kept,
                      flagged_rows = flagged,
                      conflict_rows = conflicts\<rparr>))"

section \<open>Weekly summary (reporting.py)\<close>

text \<open>
  \<open>week_bounds\<close>: the anchor at midnight, moved back by its weekday (Monday is 0; the
  epoch day was a Thursday), and the Sunday six days later.
\<close>

definition weekday :: "timestamp \<Rightarrow> int" where
  "weekday t = (t div day_ns + 3) mod 7"

definition week_bounds :: "timestamp \<Rightarrow> timestamp \<times> timestamp" where
  "week_bounds anchor_date =
     (let normalized = ts_normalize anchor_date;
          start = normalized - weekday normalized * day_ns
      in (start, start + 6 * day_ns))"

text \<open>A comparison with \<open>NaT\<close> is false, so a row with no date is in no window.\<close>

definition in_window :: "timestamp \<Rightarrow> timestamp \<Rightarrow> timestamp option \<Rightarrow> bool" where
  "in_window lo hi d = (case d of None \<Rightarrow> False | Some t \<Rightarrow> lo \<le> t \<and> t \<le> hi)"

text \<open>\<open>consolidated[(production_date >= lo) & (production_date <= hi)]\<close>\<close>

definition window_rows ::
  "timestamp \<Rightarrow> timestamp \<Rightarrow> consolidated_row list \<Rightarrow> consolidated_row list" where
  "window_rows lo hi table = filter (\<lambda>r. in_window lo hi (production_date r)) table"

text \<open>
  The key of \<open>groupby("production_line", dropna=False)\<close>: the missing cells are one
  group, whose key is \<open>None\<close>. In the sorts a missing key comes last.
\<close>

definition line_key :: "cell \<Rightarrow> string option" where
  "line_key c = (case c of CStr s \<Rightarrow> Some s | _ \<Rightarrow> None)"

definition nan_last :: "string option \<Rightarrow> nat \<times> string" where
  "nan_last k = (case k of None \<Rightarrow> (1, []) | Some s \<Rightarrow> (0, s))"

definition line_group :: "string option \<Rightarrow> consolidated_row list \<Rightarrow> consolidated_row list" where
  "line_group k rows = filter (\<lambda>r. line_key (production_row.production_line r) = k) rows"

text \<open>
  The aggregates of one group: the sum of the boolean \<open>line_issue\<close>, the size, and
  \<open>nunique\<close> of the lot, which leaves missing lots out.
\<close>

definition aggregate_line :: "consolidated_row list \<Rightarrow> string option \<Rightarrow> ranking_row" where
  "aggregate_line current k =
     \<lparr>ranking_row.production_line = k,
      issue_count = int (length (filter line_issue (line_group k current))),
      total_rows = int (length (line_group k current)),
      unique_lots =
        int (length (remdups (List.map_filter canonical_lot_id (line_group k current))))\<rparr>"

definition ranking_of :: "consolidated_row list \<Rightarrow> ranking_row list" where
  "ranking_of current =
     (let keys = sort_key nan_last
                   (remdups (map (\<lambda>r. line_key (production_row.production_line r)) current));
          grouped = map (aggregate_line current) keys
      in sort_key (\<lambda>e. (- issue_count e, - total_rows e, nan_last (ranking_row.production_line e)))
           grouped)"

text \<open>
  The trend of one window: the rows with an issue, grouped by \<open>primary_issue\<close> with
  \<open>"Unspecified"\<close> for a missing one, and counted.
\<close>

definition issue_categories :: "consolidated_row list \<Rightarrow> string list" where
  "issue_categories rows =
     map (\<lambda>r. case primary_issue r of CStr s \<Rightarrow> s | _ \<Rightarrow> ''Unspecified'')
       (filter line_issue rows)"

definition trstopdirection :: "int \<Rightarrow> string" where
  "trstopdirection d = (if 0 < d then ''up'' else if d < 0 then ''down'' else ''flat'')"

definition trending_of :: "consolidated_row list \<Rightarrow> consolidated_row list \<Rightarrow> trending_row list" where
  "trending_of current previous =
     (let cur = issue_categories current;
          prev = issue_categories previous;
          rows = map (\<lambda>c.
                   let n = int (length (filter (\<lambda>x. x = c) cur));
                       m = int (length (filter (\<lambda>x. x = c) prev))
                   in \<lparr>issue_category = c, current_count = n, previous_count = m,
                       delta = n - m, direction = trstopdirection (n - m)\<rparr>)
                   (remdups (cur @ prev))
      in sort_key (\<lambda>e. (- current_count e, - delta e, issue_category e)) rows)"

definition weekly_summary ::
  "AppConfig \<Rightarrow> consolidated_row list \<Rightarrow> timestamp \<Rightarrow> WeeklySummaryResult" where
  "weekly_summary config table anchor_date =
     (let (start, stop) = week_bounds anchor_date;
          prev_start = start - comparison_period_days config * day_ns;
          prev_end = stop - comparison_period_days config * day_ns;
          current = window_rows start stop table;
          previous = window_rows prev_start prev_end table
      in \<lparr>week_start = start, week_end = stop,
          ranking = ranking_of current,
          trending = trending_of current previous\<rparr>)"

section \<open>A date parser to run the pipeline on\<close>

text \<open>
  An instance of the parameter \<open>to_datetime\<close> for evaluating the pipeline on concrete
  tables. It reads the three layouts the test tables use, \<open>YYYY-MM-DD\<close>, \<open>YYYY/MM/DD\<close>
  and \<open>MM/DD/YYYY\<close>, and answers \<open>NaT\<close> for any other text. No general theorem below
  depends on it.
\<close>

definition digits_value :: "string \<Rightarrow> int" where
  "digits_value s = foldl (\<lambda>n c. 10 * n + (int (of_char c) - 48)) 0 s"

definition days_in_month :: "int \<Rightarrow> int \<Rightarrow> int" where
  "days_in_month y m =
     (if m = 2 then (if y mod 4 = 0 \<and> (y mod 400 = 0 \<or> y mod 100 \<noteq> 0) then 29 else 28)
      else if m \<in> set [4, 6, 9, 11] then 30 else 31)"

definition days_from_civil :: "int \<Rightarrow> int \<Rightarrow> int \<Rightarrow> int" where
  "days_from_civil y m d =
     (let y' = (if m \<le> 2 then y - 1 else y);
          era = y' div 400;
          yoe = y' - era * 400;
          doy = (153 * (if 2 < m then m - 3 else m + 9) + 2) div 5 + d - 1;
          doe = yoe * 365 + yoe div 4 - yoe div 100 + doy
      in era * 146097 + doe - 719468)"

definition civil_timestamp :: "string \<Rightarrow> string \<Rightarrow> string \<Rightarrow> timestamp option" where
  "civil_timestamp ys ms ds =
     (if list_all is_digit (ys @ ms @ ds) \<and> length ys = 4 \<and> length ms = 2 \<and> length ds = 2
      then (let y = digits_value ys; m = digits_value ms; d = digits_value ds
            in if 1 \<le> m \<and> m \<le> 12 \<and> 1 \<le> d \<and> d \<le> days_in_month y m
               then Some (days_from_civil y m d * day_ns) else None)
      else None)"

definition sample_to_datetime :: "cell \<Rightarrow> timestamp option" where
  "sample_to_datetime v =
     (case v of
        CStr s \<Rightarrow>
          (if length s = 10 \<and> s ! 4 = CHR ''-'' \<and> s ! 7 = CHR ''-''
             then civil_timestamp (take 4 s) (take 2 (drop 5 s)) (drop 8 s)
           else if length s = 10 \<and> s ! 4 = CHR ''/'' \<and> s ! 7 = CHR ''/''
             then civil_timestamp (take 4 s) (take 2 (drop 5 s)) (drop 8 s)
           else if length s = 10 \<and> s ! 2 = CHR ''/'' \<and> s ! 5 = CHR ''/''
             then civil_timestamp (drop 6 s) (take 2 s) (take 2 (drop 3 s))
           else None)
      | _ \<Rightarrow> None)"

section \<open>Sample tables\<close>

text \<open>
  Small tables in the shape of the fixtures of \<open>tests/conftest.py\<close>, for evaluating the
  pipeline. \<open>clean_production\<close> and \<open>clean_shipping\<close> hold one lot with nothing to review,
  \<open>unshipped_production\<close> a lot no shipping row mentions.
\<close>

definition sheet_row :: "string \<Rightarrow> string \<Rightarrow> int \<Rightarrow> (string \<times> cell) list \<Rightarrow> raw_row" where
  "sheet_row file sheet n cs =
     \<lparr>source_file = file, source_sheet = sheet, source_row = n, cells = cs\<rparr>"

definition clean_production :: dataframe where
  "clean_production =
     [sheet_row ''prod.xlsx'' ''Production'' 2
        [(''production_date'', CStr ''2026-02-02''),
         (''production_line'', CStr ''Line 1''),
         (''raw_lot_id'', CStr '' LOT_20260202-001 ''),
         (''line_issue'', CStr ''Yes''),
         (''primary_issue'', CStr ''Tool wear'')]]"

definition clean_shipping :: dataframe where
  "clean_shipping =
     [sheet_row ''ship.xlsx'' ''Shipping'' 2
        [(''ship_date'', CStr ''2026-02-05''),
         (''raw_lot_id'', CStr ''LOT-20260202-001''),
         (''ship_status'', CStr ''Shipped'')]]"

definition unshipped_production :: dataframe where
  "unshipped_production =
     [sheet_row ''prod.xlsx'' ''Production'' 2
        [(''production_date'', CStr ''2026-02-05''),
         (''production_line'', CStr ''Line 4''),
         (''raw_lot_id'', CStr ''LOT-20260205-001''),
         (''line_issue'', CStr ''Yes''),
         (''primary_issue'', CStr ''Tool wear'')]]"

text \<open>Two shipping rows of one lot that disagree on the status, as in the fixture.\<close>

definition conflicting_shipping :: dataframe where
  "conflicting_shipping =
     [sheet_row ''ship.xlsx'' ''Shipping'' 3
        [(''ship_date'', CStr ''2026-02-06''),
         (''raw_lot_id'', CStr ''LOT-20260203-001''),
         (''ship_status'', CStr ''On Hold'')],
      sheet_row ''ship.xlsx'' ''Shipping'' 4
        [(''ship_date'', CStr ''2026-02-07''),
         (''raw_lot_id'', CStr ''LOT-20260203-001''),
         (''ship_status'', CStr ''Partial'')]]"

text \<open>
  Rows that come with a \<open>normalized_lot_id\<close> column. In \<open>unnormalizable_lot_rows\<close> the
  raw lot does not normalize; in \<open>ambiguous_lot_rows\<close> it normalizes to another lot than
  the provided one, and the date does not parse.
\<close>

definition unnormalizable_lot_rows :: dataframe where
  "unnormalizable_lot_rows =
     [sheet_row ''book.xlsx'' ''Sheet1'' 2
        [(''date'', CStr ''2026-02-02''),
         (''raw_lot_id'', CStr ''BADLOT''),
         (''normalized_lot_id'', CStr ''LOT-20260101-001'')]]"

definition ambiguous_lot_rows :: dataframe where
  "ambiguous_lot_rows =
     [sheet_row ''book.xlsx'' ''Sheet1'' 2
        [(''date'', CStr ''bad-date''),
         (''raw_lot_id'', CStr ''LOT-20260101-002''),
         (''normalized_lot_id'', CStr ''LOT-20260101-001'')]]"

text \<open>A production sheet that has a \<open>ship_status\<close> column of its own.\<close>

definition shipped_note_production :: dataframe where
  "shipped_note_production =
     [sheet_row ''prod.xlsx'' ''Production'' 2
        [(''production_date'', CStr ''2026-02-02''),
         (''production_line'', CStr ''Line 1''),
         (''raw_lot_id'', CStr ''LOT-20260202-001''),
         (''line_issue'', CStr ''No''),
         (''ship_status'', CStr ''Shipped'')]]"

text \<open>
  A week of production rows: one on a named line, two of one lot with no line (a
  \<open>None\<close> cell and a \<open>nan\<close> cell), and one with no line in the week after.
\<close>

definition unnamed_line_production :: dataframe where
  "unnamed_line_production =
     [sheet_row ''prod.xlsx'' ''Production'' 2
        [(''production_date'', CStr ''2026-02-02''),
         (''production_line'', CStr ''Line 1''),
         (''raw_lot_id'', CStr ''LOT-20260202-001''),
         (''line_issue'', CStr ''Yes'')],
      sheet_row ''prod.xlsx'' ''Production'' 3
        [(''production_date'', CStr ''2026-02-03''),
         (''production_line'', CNone),
         (''raw_lot_id'', CStr ''LOT-20260203-001''),
         (''line_issue'', CStr ''Yes'')],
      sheet_row ''prod.xlsx'' ''Production'' 4
        [(''production_date'', CStr ''2026-02-04''),
         (''production_line'', CNaN),
         (''raw_lot_id'', CStr ''LOT_20260203_001''),
         (''line_issue'', CStr ''No'')],
      sheet_row ''prod.xlsx'' ''Production'' 5
        [(''production_date'', CStr ''2026-02-10''),
         (''production_line'', CNone),
         (''raw_lot_id'', CStr ''LOT-20260210-001''),
         (''line_issue'', CStr ''Yes'')]]"

definition unnamed_line_table :: "consolidated_row list" where
  "unnamed_line_table =
     (case consolidate_logs sample_to_datetime unnamed_line_production clean_shipping True of
        Inl e \<Rightarrow> []
      | Inr result \<Rightarrow> consolidated result)"

definition default_config :: AppConfig where
  "default_config =
     \<lparr>issue_rule_text = ''Count row as issue when line_issue is truthy (Yes/True/1).'',
      not_found_shipping_label = ''Not Found / Not Shipped Yet'',
      comparison_period_days = 7\<rparr>"

text \<open>
  Shipping rows of one lot: an early one, two that tie on the latest date, one whose
  date does not parse, and a row whose lot does not normalize.
\<close>

definition tied_shipping :: dataframe where
  "tied_shipping =
     [sheet_row ''ship.xlsx'' ''Shipping'' 2
        [(''ship_date'', CStr ''2026-02-06''),
         (''raw_lot_id'', CStr ''LOT-20260203-001''),
         (''ship_status'', CStr ''On Hold'')],
      sheet_row ''ship.xlsx'' ''Shipping'' 3
        [(''ship_date'', CStr ''not-a-date''),
         (''raw_lot_id'', CStr ''LOT-20260203-001''),
         (''ship_status'', CStr ''On Hold'')],
      sheet_row ''ship.xlsx'' ''Shipping'' 4
        [(''ship_date'', CStr ''2026-02-07''),
         (''raw_lot_id'', CStr ''L0T 20260203 001''),
         (''ship_status'', CStr ''Partial'')],
      sheet_row ''ship.xlsx'' ''Shipping'' 5
        [(''ship_date'', CStr ''02/07/2026''),
         (''raw_lot_id'', CStr ''LOT20260203001''),
         (''ship_status'', CStr ''Shipped'')],
      sheet_row ''ship.xlsx'' ''Shipping'' 6
        [(''ship_date'', CStr ''2026-02-09''),
         (''raw_lot_id'', CStr ''BADLOT''),
         (''ship_status'', CStr ''Shipped'')]]"

section \<open>Properties of the normalization\<close>

lemma digit_not_space: "is_digit c \<Longrightarrow> \<not> is_space c"
  by (auto simp: is_digit_def is_space_def)

lemma digit_not_separator: "is_digit c \<Longrightarrow> \<not> is_separator c"
  by (auto simp: is_digit_def is_separator_def is_space_def)

lemma to_upper_digit: "is_digit c \<Longrightarrow> to_upper c = c"
  unfolding is_digit_def by (simp, elim disjE; hypsubst; simp add: to_upper_def)

lemma to_upper_separator: "is_separator c \<Longrightarrow> to_upper c = c"
  unfolding is_separator_def is_space_def by (simp, elim disjE; hypsubst; simp add: to_upper_def)

lemma str_upper_fixed: "list_all (\<lambda>c. is_digit c \<or> is_separator c) s \<Longrightarrow> str_upper s = s"
  by (induction s) (auto simp: str_upper_def to_upper_digit to_upper_separator)

lemma str_strip_padded:
  assumes "list_all is_space l" "list_all is_space t" "body \<noteq> []"
    "\<not> is_space (hd body)" "\<not> is_space (last body)"
  shows "str_strip (l @ body @ t) = body"
proof -
  have a: "dropWhile is_space (l @ body @ t) = body @ t"
    using assms(1,3,4) by (cases body) (auto simp: list_all_iff)
  have "dropWhile is_space (rev t @ rev body) = dropWhile is_space (rev body)"
    by (rule dropWhile_append2) (use assms(2) in \<open>auto simp: list_all_iff\<close>)
  also have "\<dots> = rev body"
    using assms(3,5) by (cases body rule: rev_cases) auto
  finally show ?thesis by (simp add: str_strip_def a)
qed

lemma str_replace_no_L: "CHR ''L'' \<notin> set s \<Longrightarrow> str_replace ''L0T'' ''LOT'' s = s"
  by (induction s) (auto simp: prefix_Cons)

lemma remove_separators_seps: "list_all is_separator s \<Longrightarrow> remove_separators s = []"
  by (induction s) (auto simp: remove_separators_def)

lemma remove_separators_digits: "list_all is_digit s \<Longrightarrow> remove_separators s = s"
  by (induction s) (auto simp: remove_separators_def digit_not_separator)

lemma remove_separators_append: "remove_separators (s @ t) = remove_separators s @ remove_separators t"
  by (simp add: remove_separators_def)

lemma lot_pattern_search_structured:
  assumes "length d = 8" "list_all is_digit d" "length q = 3" "list_all is_digit q"
  shows "lot_pattern_search (''LOT-'' @ d @ ''-'' @ q) = Some (d, q)"
  using assms by (simp add: lot_pattern_match_def opt_sep_def take_digits_def)

lemma restructure_compact:
  assumes "length d = 8" "list_all is_digit d" "length q = 3" "list_all is_digit q"
  shows "restructure (''LOT'' @ d @ q) = ''LOT-'' @ d @ ''-'' @ q"
  using assms by (simp add: restructure_def)

lemma str_replace_LOT: "CHR ''L'' \<notin> set r \<Longrightarrow> str_replace ''L0T'' ''LOT'' (''LOT'' @ r) = ''LOT'' @ r"
  using str_replace_no_L[of r] by (simp add: prefix_Cons)

lemma str_replace_L0T: "CHR ''L'' \<notin> set r \<Longrightarrow> str_replace ''L0T'' ''LOT'' (''L0T'' @ r) = ''LOT'' @ r"
  using str_replace_no_L[of r] by (simp add: prefix_Cons)

lemma sep_or_digit_not_L: "is_digit c \<or> is_separator c \<Longrightarrow> c \<noteq> CHR ''L''"
  unfolding is_digit_def is_separator_def is_space_def by auto

lemma LOT_not_separator:
  "remove_separators (''LOT'' @ r) = ''LOT'' @ remove_separators r"
  by (simp add: remove_separators_def is_separator_def is_space_def)

lemma normalize_lot_id_spaced_form:
  assumes d: "length d = 8" "list_all is_digit d" and q: "length q = 3" "list_all is_digit q"
    and p: "p = ''LOT'' \<or> p = ''L0T''"
    and a: "list_all is_separator a" and b: "list_all is_separator b"
    and l: "list_all is_space lead" and t: "list_all is_space trail"
  shows "normalize_lot_id (CStr (lead @ p @ a @ d @ b @ q @ trail)) =
    \<lparr>LotNormalization.canonical_lot_id = Some (''LOT-'' @ d @ ''-'' @ q), status = ''ok'', reason = None\<rparr>"
proof -
  define r where "r = a @ d @ b @ q"
  have qne: "q \<noteq> []" using q(1) by auto
  have lastq: "is_digit (last q)" using q(2) qne by (simp add: list_all_iff)
  have rne: "r \<noteq> []" using qne by (simp add: r_def)
  have lastr: "last r = last q" using qne by (simp add: r_def)
  have fixed: "list_all (\<lambda>c. is_digit c \<or> is_separator c) r"
    using a b d(2) q(2) by (simp add: r_def list_all_iff) blast
  have noL: "CHR ''L'' \<notin> set r"
    using fixed sep_or_digit_not_L by (auto simp: list_all_iff)
  have p_space: "\<not> is_space (hd (p @ r))"
    using p by (auto simp: is_space_def)
  have strip: "str_strip (lead @ (p @ r) @ trail) = p @ r"
  proof (rule str_strip_padded[OF l t])
    show "p @ r \<noteq> []" using rne by simp
    show "\<not> is_space (hd (p @ r))" by (rule p_space)
    show "\<not> is_space (last (p @ r))" using rne lastr lastq by (simp add: digit_not_space)
  qed
  have up_p: "str_upper p = p" using p by (auto simp: str_upper_def to_upper_def)
  have up: "str_upper (p @ r) = p @ r"
    using up_p str_upper_fixed[OF fixed] by (simp add: str_upper_def)
  have rep: "str_replace ''L0T'' ''LOT'' (p @ r) = ''LOT'' @ r"
    using p str_replace_LOT[OF noL] str_replace_L0T[OF noL] by blast
  have comp_r: "remove_separators r = d @ q"
    using a b d(2) q(2)
    by (simp add: r_def remove_separators_append remove_separators_seps remove_separators_digits)
  have comp: "remove_separators (''LOT'' @ r) = ''LOT'' @ d @ q"
    by (simp only: LOT_not_separator comp_r)
  have ne: "p @ r \<noteq> []" using rne by simp
  have "normalize_lot_id (CStr (lead @ (p @ r) @ trail)) =
    \<lparr>LotNormalization.canonical_lot_id = Some (''LOT-'' @ d @ ''-'' @ q), status = ''ok'', reason = None\<rparr>"
    unfolding normalize_lot_id_def
    by (simp only: is_missing_def py_str_def cell.case strip up rep comp Let_def ne if_False
        restructure_compact[OF d q] lot_pattern_search_structured[OF d q] option.case prod.case)
  then show ?thesis by (simp add: r_def)
qed

lemma lot_pattern_search_Nil: "lot_pattern_search (restructure []) = None"
  by (simp add: restructure_def lot_pattern_match_def)

lemma compact_lot_text_blank: "str_upper (str_strip s) = [] \<Longrightarrow> compact_lot_text s = []"
  by (simp add: compact_lot_text_def remove_separators_def)

lemma normalize_lot_id_by_compact_text:
  "LotNormalization.canonical_lot_id (normalize_lot_id (CStr s)) =
     (case lot_pattern_search (restructure (compact_lot_text s)) of
        None \<Rightarrow> None
      | Some (g1, g2) \<Rightarrow> Some (''LOT-'' @ g1 @ ''-'' @ g2))"
  "status (normalize_lot_id (CStr s)) =
     (case lot_pattern_search (restructure (compact_lot_text s)) of
        None \<Rightarrow> ''needs_review''
      | Some g \<Rightarrow> ''ok'')"
  by (auto simp: normalize_lot_id_def is_missing_def py_str_def Let_def compact_lot_text_blank
        lot_pattern_search_Nil compact_lot_text_def[symmetric]
      split: option.splits)

lemma normalize_lot_id_of_compact_text:
  assumes "length d = 8" "list_all is_digit d" "length q = 3" "list_all is_digit q"
    and c: "compact_lot_text s = ''LOT'' @ d @ q"
  shows "normalize_lot_id (CStr s) =
    \<lparr>LotNormalization.canonical_lot_id = Some (''LOT-'' @ d @ ''-'' @ q), status = ''ok'', reason = None\<rparr>"
proof -
  have ne: "str_upper (str_strip s) \<noteq> []"
    using c compact_lot_text_blank[of s] by auto
  have "remove_separators (str_replace ''L0T'' ''LOT'' (str_upper (str_strip s))) = ''LOT'' @ d @ q"
    using c by (simp add: compact_lot_text_def)
  then show ?thesis
    unfolding normalize_lot_id_def
    by (simp only: is_missing_def py_str_def cell.case Let_def ne if_False
        restructure_compact[OF assms(1-4)] lot_pattern_search_structured[OF assms(1-4)]
        option.case prod.case)
qed


lemma remove_separators_dropWhile:
  "remove_separators (dropWhile is_space x) = remove_separators x"
  by (induction x) (auto simp: remove_separators_def is_separator_def)

lemma remove_separators_rev: "remove_separators (rev x) = rev (remove_separators x)"
  by (simp add: remove_separators_def rev_filter)

lemma remove_separators_strip: "remove_separators (str_strip s) = remove_separators s"
  by (simp add: str_strip_def remove_separators_rev remove_separators_dropWhile)

lemma set_str_strip: "set (str_strip s) \<subseteq> set s"
  by (auto simp: str_strip_def dest!: set_dropWhileD)

lemma to_upper_LOT: "c \<in> set ''LOT'' \<Longrightarrow> to_upper c = c"
  by (simp, elim disjE; hypsubst; simp add: to_upper_def)

lemma str_upper_unchanged: "(\<And>c. c \<in> set s \<Longrightarrow> to_upper c = c) \<Longrightarrow> str_upper s = s"
  by (induction s) (auto simp: str_upper_def)

lemma str_replace_absent:
  "(\<And>u v. x \<noteq> u @ old @ v) \<Longrightarrow> str_replace old new x = x"
proof (induction x)
  case Nil
  show ?case by simp
next
  case (Cons c cs)
  have no_prefix: "\<not> prefix old (c # cs)"
  proof
    assume "prefix old (c # cs)"
    then obtain v where "c # cs = old @ v" by (auto simp: prefix_def)
    then have "c # cs = [] @ old @ v" by simp
    with Cons.prems show False by blast
  qed
  have "\<And>u v. cs \<noteq> u @ old @ v"
  proof
    fix u v assume "cs = u @ old @ v"
    then have "c # cs = (c # u) @ old @ v" by simp
    with Cons.prems show False by blast
  qed
  then have "str_replace old new cs = cs" by (rule Cons.IH)
  with no_prefix show ?case by simp
qed

lemma no_typo_in_separated:
  assumes dq: "list_all is_digit d" "list_all is_digit q"
    and x: "remove_separators x = ''LOT'' @ d @ q"
  shows "x \<noteq> u @ ''L0T'' @ v"
proof
  assume "x = u @ ''L0T'' @ v"
  then have e: "remove_separators u @ ''L0T'' @ remove_separators v = ''LOT'' @ d @ q"
    using x by (simp add: remove_separators_def is_separator_def is_space_def)
  have "CHR ''L'' \<notin> set d" "CHR ''L'' \<notin> set q"
    using dq sep_or_digit_not_L by (auto simp: list_all_iff)
  then have noL: "CHR ''L'' \<notin> set (''OT'' @ d @ q)" by simp
  show False
  proof (cases "remove_separators u")
    case Nil
    with e show False by simp
  next
    case (Cons c w)
    with e have "w @ ''L0T'' @ remove_separators v = ''OT'' @ d @ q" by simp
    then have "CHR ''L'' \<in> set (''OT'' @ d @ q)"
      by (metis append_Cons in_set_conv_decomp)
    with noL show False by blast
  qed
qed

lemma compact_lot_text_separated:
  assumes dq: "list_all is_digit d" "list_all is_digit q"
    and s: "remove_separators s = ''LOT'' @ d @ q"
  shows "compact_lot_text s = ''LOT'' @ d @ q"
proof -
  let ?x = "str_strip s"
  have x: "remove_separators ?x = ''LOT'' @ d @ q"
    using s by (simp add: remove_separators_strip)
  have chars: "to_upper c = c" if "c \<in> set ?x" for c
  proof (cases "is_separator c")
    case True
    then show ?thesis by (rule to_upper_separator)
  next
    case False
    with that have "c \<in> set (remove_separators ?x)" by (simp add: remove_separators_def)
    then have "c \<in> set ''LOT'' \<or> is_digit c"
      using dq unfolding x by (auto simp: list_all_iff)
    then show ?thesis using to_upper_LOT to_upper_digit by blast
  qed
  have up: "str_upper ?x = ?x" by (rule str_upper_unchanged) (rule chars)
  have "str_replace ''L0T'' ''LOT'' ?x = ?x"
    by (rule str_replace_absent) (rule no_typo_in_separated[OF dq x])
  then show ?thesis by (simp add: compact_lot_text_def up x)
qed

text \<open>
  Claim C9. \<open>normalize_lot_id\<close> is idempotent and does not depend on the separators or on
  the \<open>L0T\<close> typo. Two lot texts with the same compact text (they differ only by
  whitespace, hyphens and underscores, wherever these stand, by letter case, or by the
  literal \<open>L0T\<close> for \<open>LOT\<close>) get the same canonical id and the same status. For a date part
  \<open>d\<close> of 8 digits and a sequence part \<open>q\<close> of 3 digits, the result is \<open>LOT-d-q\<close> with
  status \<open>ok\<close> and no reason for every text whose compact text is \<open>LOT d q\<close>; for every
  text that leaves \<open>LOT d q\<close> when its separators are removed, wherever they stand; for
  every text made of \<open>L0T\<close>, a run of separators, \<open>d\<close>, a run of separators and \<open>q\<close>, with
  any whitespace around it; and for the canonical id \<open>LOT-d-q\<close> itself.
\<close>

theorem normalize_lot_id_separator_typo_invariant:
  "(compact_lot_text s = compact_lot_text t \<longrightarrow>
      LotNormalization.canonical_lot_id (normalize_lot_id (CStr s)) =
        LotNormalization.canonical_lot_id (normalize_lot_id (CStr t)) \<and>
      status (normalize_lot_id (CStr s)) = status (normalize_lot_id (CStr t))) \<and>
   (length d = 8 \<and> list_all is_digit d \<and> length q = 3 \<and> list_all is_digit q \<longrightarrow>
      (compact_lot_text s = ''LOT'' @ d @ q \<longrightarrow> normalize_lot_id (CStr s) =
         \<lparr>LotNormalization.canonical_lot_id = Some (''LOT-'' @ d @ ''-'' @ q), status = ''ok'', reason = None\<rparr>) \<and>
      (remove_separators s = ''LOT'' @ d @ q \<longrightarrow> normalize_lot_id (CStr s) =
         \<lparr>LotNormalization.canonical_lot_id = Some (''LOT-'' @ d @ ''-'' @ q), status = ''ok'', reason = None\<rparr>) \<and>
      (list_all is_separator a \<and> list_all is_separator b \<and>
       list_all is_space lead \<and> list_all is_space trail \<longrightarrow>
         normalize_lot_id (CStr (lead @ ''L0T'' @ a @ d @ b @ q @ trail)) =
           \<lparr>LotNormalization.canonical_lot_id = Some (''LOT-'' @ d @ ''-'' @ q), status = ''ok'', reason = None\<rparr>) \<and>
      normalize_lot_id (CStr (''LOT-'' @ d @ ''-'' @ q)) =
        \<lparr>LotNormalization.canonical_lot_id = Some (''LOT-'' @ d @ ''-'' @ q), status = ''ok'', reason = None\<rparr>)"
proof (intro conjI impI)
  assume "compact_lot_text s = compact_lot_text t"
  then show "LotNormalization.canonical_lot_id (normalize_lot_id (CStr s)) =
        LotNormalization.canonical_lot_id (normalize_lot_id (CStr t))"
    and "status (normalize_lot_id (CStr s)) = status (normalize_lot_id (CStr t))"
    by (simp_all only: normalize_lot_id_by_compact_text)
next
  assume "length d = 8 \<and> list_all is_digit d \<and> length q = 3 \<and> list_all is_digit q"
  then have d: "length d = 8" "list_all is_digit d" and q: "length q = 3" "list_all is_digit q"
    by simp_all
  {
    assume "compact_lot_text s = ''LOT'' @ d @ q"
    then show "normalize_lot_id (CStr s) =
         \<lparr>LotNormalization.canonical_lot_id = Some (''LOT-'' @ d @ ''-'' @ q), status = ''ok'', reason = None\<rparr>"
      by (rule normalize_lot_id_of_compact_text[OF d q])
  }
  {
    assume "remove_separators s = ''LOT'' @ d @ q"
    then have "compact_lot_text s = ''LOT'' @ d @ q"
      by (rule compact_lot_text_separated[OF d(2) q(2)])
    then show "normalize_lot_id (CStr s) =
         \<lparr>LotNormalization.canonical_lot_id = Some (''LOT-'' @ d @ ''-'' @ q), status = ''ok'', reason = None\<rparr>"
      by (rule normalize_lot_id_of_compact_text[OF d q])
  }
  {
    assume "list_all is_separator a \<and> list_all is_separator b \<and>
       list_all is_space lead \<and> list_all is_space trail"
    then show "normalize_lot_id (CStr (lead @ ''L0T'' @ a @ d @ b @ q @ trail)) =
           \<lparr>LotNormalization.canonical_lot_id = Some (''LOT-'' @ d @ ''-'' @ q), status = ''ok'', reason = None\<rparr>"
      using normalize_lot_id_spaced_form[OF d q, of "''L0T''" a b lead trail] by simp
  }
  show "normalize_lot_id (CStr (''LOT-'' @ d @ ''-'' @ q)) =
        \<lparr>LotNormalization.canonical_lot_id = Some (''LOT-'' @ d @ ''-'' @ q), status = ''ok'', reason = None\<rparr>"
    using normalize_lot_id_spaced_form[OF d q, of "''LOT''" "''-''" "''-''" "[]" "[]"]
    by (simp add: is_separator_def)
qed

theorem normalize_lot_id_separator_typo_invariant_witness:
  "normalize_lot_id (CStr ''LOT-20260101-001'') = 
     \<lparr>LotNormalization.canonical_lot_id = Some (''LOT-20260101-001''), status = ''ok'', reason = None\<rparr> \<and>
   normalize_lot_id (CStr ''LOT_20260101_001'') = 
     \<lparr>LotNormalization.canonical_lot_id = Some (''LOT-20260101-001''), status = ''ok'', reason = None\<rparr> \<and>
   normalize_lot_id (CStr ''LOT20260101001'') = 
     \<lparr>LotNormalization.canonical_lot_id = Some (''LOT-20260101-001''), status = ''ok'', reason = None\<rparr> \<and>
   normalize_lot_id (CStr ''L0T-20260101-001'') = 
     \<lparr>LotNormalization.canonical_lot_id = Some (''LOT-20260101-001''), status = ''ok'', reason = None\<rparr> \<and>
   normalize_lot_id (CStr ''LOT-2026-01-01-001'') = 
     \<lparr>LotNormalization.canonical_lot_id = Some (''LOT-20260101-001''), status = ''ok'', reason = None\<rparr> \<and>
   normalize_lot_id (CStr ''-LOT-20260101-001-'') = 
     \<lparr>LotNormalization.canonical_lot_id = Some (''LOT-20260101-001''), status = ''ok'', reason = None\<rparr> \<and>
   normalize_lot_id (CStr '' l0t_2026 0101-001 '') = 
     \<lparr>LotNormalization.canonical_lot_id = Some (''LOT-20260101-001''), status = ''ok'', reason = None\<rparr> \<and>
   LotNormalization.canonical_lot_id (normalize_lot_id (CStr ''L O T 20260101 001'')) =
     LotNormalization.canonical_lot_id (normalize_lot_id (CStr ''l0t20260101001'')) \<and>
   status (normalize_lot_id (CStr ''L O T 20260101 001'')) =
     status (normalize_lot_id (CStr ''l0t20260101001''))"
proof -
  have dq: "length ''20260101'' = 8 \<and> list_all is_digit ''20260101'' \<and>
            length ''001'' = 3 \<and> list_all is_digit ''001''"
    by (simp add: is_digit_def)
  have sep: "list_all is_separator ''-'' \<and> list_all is_separator ''-'' \<and>
             list_all is_space [] \<and> list_all is_space []"
    by (simp add: is_separator_def)
  have r: "remove_separators ''LOT_20260101_001'' = ''LOT'' @ ''20260101'' @ ''001''"
    "remove_separators ''LOT20260101001'' = ''LOT'' @ ''20260101'' @ ''001''"
    "remove_separators ''LOT-2026-01-01-001'' = ''LOT'' @ ''20260101'' @ ''001''"
    "remove_separators ''-LOT-20260101-001-'' = ''LOT'' @ ''20260101'' @ ''001''"
    by code_simp+
  have c: "compact_lot_text '' l0t_2026 0101-001 '' = ''LOT'' @ ''20260101'' @ ''001''"
    by code_simp
  have e: "compact_lot_text ''L O T 20260101 001'' = compact_lot_text ''l0t20260101001''"
    by code_simp
  note parts = normalize_lot_id_separator_typo_invariant[where d = "''20260101''" and q = "''001''",
      THEN conjunct2, THEN mp, OF dq]
  note by_compact = parts[THEN conjunct1, THEN mp]
  note by_separators = parts[THEN conjunct2, THEN conjunct1, THEN mp]
  note by_typo = parts[THEN conjunct2, THEN conjunct2, THEN conjunct1, THEN mp]
  note canonical = parts[THEN conjunct2, THEN conjunct2, THEN conjunct2]
  note same = normalize_lot_id_separator_typo_invariant[THEN conjunct1, THEN mp, OF e]
  have k1: "normalize_lot_id (CStr ''LOT-20260101-001'') = \<lparr>LotNormalization.canonical_lot_id = Some ''LOT-20260101-001'', status = ''ok'', reason = None\<rparr>"
    using canonical by simp
  have k2: "normalize_lot_id (CStr ''LOT_20260101_001'') = \<lparr>LotNormalization.canonical_lot_id = Some ''LOT-20260101-001'', status = ''ok'', reason = None\<rparr>"
    using by_separators[OF r(1)] by simp
  have k3: "normalize_lot_id (CStr ''LOT20260101001'') = \<lparr>LotNormalization.canonical_lot_id = Some ''LOT-20260101-001'', status = ''ok'', reason = None\<rparr>"
    using by_separators[OF r(2)] by simp
  have k4: "normalize_lot_id (CStr ''L0T-20260101-001'') = \<lparr>LotNormalization.canonical_lot_id = Some ''LOT-20260101-001'', status = ''ok'', reason = None\<rparr>"
    using by_typo[OF sep] by simp
  have k5: "normalize_lot_id (CStr ''LOT-2026-01-01-001'') = \<lparr>LotNormalization.canonical_lot_id = Some ''LOT-20260101-001'', status = ''ok'', reason = None\<rparr>"
    using by_separators[OF r(3)] by simp
  have k6: "normalize_lot_id (CStr ''-LOT-20260101-001-'') = \<lparr>LotNormalization.canonical_lot_id = Some ''LOT-20260101-001'', status = ''ok'', reason = None\<rparr>"
    using by_separators[OF r(4)] by simp
  have k7: "normalize_lot_id (CStr '' l0t_2026 0101-001 '') = \<lparr>LotNormalization.canonical_lot_id = Some ''LOT-20260101-001'', status = ''ok'', reason = None\<rparr>"
    using by_compact[OF c] by simp
  show ?thesis
    by (intro conjI) (rule k1 k2 k3 k4 k5 k6 k7 same[THEN conjunct1] same[THEN conjunct2])+
qed

text \<open>
  A zero that separators split off from \<open>L\<close> and \<open>T\<close> is not the literal typo: the
  correction runs before the separators are removed, and the text is refused.
\<close>

lemma normalize_lot_id_split_typo_refused:
  "compact_lot_text ''L-0T-20260101-001'' = ''L0T20260101001'' \<and>
   LotNormalization.canonical_lot_id (normalize_lot_id (CStr ''L-0T-20260101-001'')) = None \<and>
   status (normalize_lot_id (CStr ''L-0T-20260101-001'')) = ''needs_review''"
  by code_simp

text \<open>
  Claim C1. The claim: \<open>normalize_lot_id\<close> answers \<open>ok\<close> exactly when the compacted text
  is \<open>LOT\<close>, 8 digits and 3 digits and nothing else, and rejects a text that only contains
  such a core. The code anchors the pattern only where it reinserts the hyphens and then
  looks the pattern up with \<open>search\<close>: a lot with a sequence part of four digits, and a
  lot with characters around it, are accepted and cut down to the core.
\<close>

theorem normalize_lot_id_accepts_embedded_core:
  "normalize_lot_id (CStr ''LOT-20260101-0012'') =
     \<lparr>LotNormalization.canonical_lot_id = Some ''LOT-20260101-001'', status = ''ok'', reason = None\<rparr> \<and>
   normalize_lot_id (CStr ''XLOT20260101001Y'') =
     \<lparr>LotNormalization.canonical_lot_id = Some ''LOT-20260101-001'', status = ''ok'', reason = None\<rparr>"
  by code_simp

section \<open>Properties of the prepared rows\<close>

lemma hd_of_mapped: "map f xs = y # ys \<Longrightarrow> hd xs \<in> set xs"
  by (cases xs) auto

lemma normalize_lot_id_present_iff_ok:
  "(LotNormalization.canonical_lot_id (normalize_lot_id v) \<noteq> None) = (status (normalize_lot_id v) = ''ok'')"
  by (simp add: normalize_lot_id_def Let_def split: option.splits prod.splits)

lemma prepare_common_fields:
  "canonical_lot_id (snd (prepare_common td r lot prov d ds)) =
     LotNormalization.canonical_lot_id (normalize_lot_id lot)"
  "lot_normalization_status (snd (prepare_common td r lot prov d ds)) = status (normalize_lot_id lot)"
  "provided_normalized_lot_id (snd (prepare_common td r lot prov d ds)) = prov"
  "needs_review (snd (prepare_common td r lot prov d ds)) =
     (if lot_mismatch (provided_canonical prov) (LotNormalization.canonical_lot_id (normalize_lot_id lot))
      then True
      else opt_notna (snd (parse_mixed_date td d)) \<or> status (normalize_lot_id lot) \<noteq> ''ok'')"
  "review_reason (snd (prepare_common td r lot prov d ds)) =
     (if lot_mismatch (provided_canonical prov) (LotNormalization.canonical_lot_id (normalize_lot_id lot))
      then AMBIGUOUS_LOT_MATCH
      else fillna_empty (snd (parse_mixed_date td d)) @ fillna_empty (reason (normalize_lot_id lot)))"
  by (simp_all add: prepare_common_def Let_def split: prod.splits)

lemma prepare_production_row_ex:
  assumes "x \<in> set (prepare_production td df)"
  shows "\<exists>r lot prov d ext.
    x = prepared_row.extend (snd (prepare_common td r lot prov d ''production'')) ext"
  using assms unfolding prepare_production_def Let_def
  by (clarsimp simp: case_prod_beta) blast

lemma prepare_production_row:
  assumes "x \<in> set (prepare_production td df)"
  obtains r lot prov d ext where
    "x = prepared_row.extend (snd (prepare_common td r lot prov d ''production'')) ext"
  using prepare_production_row_ex[OF assms] by blast

lemma prepare_shipping_row_ex:
  assumes "x \<in> set (prepare_shipping td df)"
  shows "\<exists>r lot prov d ext.
    x = prepared_row.extend (snd (prepare_common td r lot prov d ''shipping'')) ext"
  using assms unfolding prepare_shipping_def Let_def
  by (clarsimp simp: case_prod_beta) blast

lemma prepare_shipping_row:
  assumes "x \<in> set (prepare_shipping td df)"
  obtains r lot prov d ext where
    "x = prepared_row.extend (snd (prepare_common td r lot prov d ''shipping'')) ext"
  using prepare_shipping_row_ex[OF assms] by blast

lemma extend_selectors:
  "canonical_lot_id (prepared_row.extend c ext) = canonical_lot_id c"
  "lot_normalization_status (prepared_row.extend c ext) = lot_normalization_status c"
  "provided_normalized_lot_id (prepared_row.extend c ext) = provided_normalized_lot_id c"
  "needs_review (prepared_row.extend c ext) = needs_review c"
  "review_reason (prepared_row.extend c ext) = review_reason c"
  by (simp_all add: prepared_row.defs)

lemma prepared_common_present_iff_ok:
  "(canonical_lot_id (prepared_row.extend (snd (prepare_common td r lot prov d ds)) ext) \<noteq> None) =
   (lot_normalization_status (prepared_row.extend (snd (prepare_common td r lot prov d ds)) ext) = ''ok'')"
  by (simp only: extend_selectors prepare_common_fields normalize_lot_id_present_iff_ok)

text \<open>
  Claim C8. For every result of \<open>normalize_lot_id\<close> and for every row of both prepared
  tables, \<open>canonical_lot_id\<close> is present if and only if \<open>lot_normalization_status\<close> is
  \<open>ok\<close>.
\<close>

theorem canonical_lot_id_present_iff_ok:
  "(LotNormalization.canonical_lot_id (normalize_lot_id v) \<noteq> None) = (status (normalize_lot_id v) = ''ok'') \<and>
   (\<forall>r \<in> set (prepare_production to_datetime production_df).
      (canonical_lot_id r \<noteq> None) = (lot_normalization_status r = ''ok'')) \<and>
   (\<forall>r \<in> set (prepare_shipping to_datetime shipping_df).
      (canonical_lot_id r \<noteq> None) = (lot_normalization_status r = ''ok''))"
proof (intro conjI ballI)
  show "(LotNormalization.canonical_lot_id (normalize_lot_id v) \<noteq> None) = (status (normalize_lot_id v) = ''ok'')"
    by (rule normalize_lot_id_present_iff_ok)
next
  fix r assume "r \<in> set (prepare_production to_datetime production_df)"
  then show "(canonical_lot_id r \<noteq> None) = (lot_normalization_status r = ''ok'')"
    by (elim prepare_production_row) (simp only: prepared_common_present_iff_ok)
next
  fix r assume "r \<in> set (prepare_shipping to_datetime shipping_df)"
  then show "(canonical_lot_id r \<noteq> None) = (lot_normalization_status r = ''ok'')"
    by (elim prepare_shipping_row) (simp only: prepared_common_present_iff_ok)
qed

theorem canonical_lot_id_present_iff_ok_witness:
  "LotNormalization.canonical_lot_id (normalize_lot_id (CStr ''BADLOT'')) = None \<and>
   status (normalize_lot_id (CStr ''BADLOT'')) = ''needs_review'' \<and>
   map canonical_lot_id (prepare_production sample_to_datetime clean_production) = [Some ''LOT-20260202-001''] \<and>
   lot_normalization_status (hd (prepare_production sample_to_datetime clean_production)) = ''ok'' \<and>
   map canonical_lot_id (prepare_shipping sample_to_datetime unnormalizable_lot_rows) = [None] \<and>
   lot_normalization_status (hd (prepare_shipping sample_to_datetime unnormalizable_lot_rows)) \<noteq> ''ok''"
proof -
  have n: "LotNormalization.canonical_lot_id (normalize_lot_id (CStr ''BADLOT'')) = None"
    by code_simp
  have p: "map canonical_lot_id (prepare_production sample_to_datetime clean_production) =
             [Some ''LOT-20260202-001'']"
    by code_simp
  have s: "map canonical_lot_id (prepare_shipping sample_to_datetime unnormalizable_lot_rows) = [None]"
    by code_simp
  note all = canonical_lot_id_present_iff_ok[of "CStr ''BADLOT''" sample_to_datetime clean_production
      unnormalizable_lot_rows]
  have hp: "canonical_lot_id (hd (prepare_production sample_to_datetime clean_production)) =
              Some ''LOT-20260202-001''"
    using p by (cases "prepare_production sample_to_datetime clean_production") auto
  have hs: "canonical_lot_id (hd (prepare_shipping sample_to_datetime unnormalizable_lot_rows)) = None"
    using s by (cases "prepare_shipping sample_to_datetime unnormalizable_lot_rows") auto
  from all have "status (normalize_lot_id (CStr ''BADLOT'')) \<noteq> ''ok''"
    using n by simp
  moreover have "status (normalize_lot_id (CStr ''BADLOT'')) = ''needs_review''"
    by code_simp
  moreover from all hd_of_mapped[OF p] hp
  have "lot_normalization_status (hd (prepare_production sample_to_datetime clean_production)) = ''ok''"
    by (metis option.distinct(1))
  moreover from all hd_of_mapped[OF s] hs
  have "lot_normalization_status (hd (prepare_shipping sample_to_datetime unnormalizable_lot_rows)) \<noteq> ''ok''"
    by metis
  ultimately show ?thesis using n p s by simp
qed

lemma ambiguous_common:
  assumes "provided_canonical (provided_normalized_lot_id x) = Some p"
    and "canonical_lot_id x = Some c" and "p \<noteq> c"
    and "x = prepared_row.extend (snd (prepare_common td r lot prov d ds)) ext"
  shows "needs_review x \<and> review_reason x = AMBIGUOUS_LOT_MATCH"
proof -
  have "lot_mismatch (provided_canonical prov) (LotNormalization.canonical_lot_id (normalize_lot_id lot))"
    using assms by (simp add: extend_selectors prepare_common_fields lot_mismatch_def opt_notna_def)
  then show ?thesis
    using assms(4) by (simp add: extend_selectors prepare_common_fields)
qed

lemma ambiguous_production:
  assumes "r \<in> set (prepare_production td df)"
    and "provided_canonical (provided_normalized_lot_id r) = Some p"
    and "canonical_lot_id r = Some c" and "p \<noteq> c"
  shows "needs_review r \<and> review_reason r = AMBIGUOUS_LOT_MATCH"
proof -
  from assms(1) obtain r0 lot prov d ext where
    "r = prepared_row.extend (snd (prepare_common td r0 lot prov d ''production'')) ext"
    by (rule prepare_production_row)
  then show ?thesis by (rule ambiguous_common[OF assms(2,3,4)])
qed

lemma ambiguous_shipping:
  assumes "r \<in> set (prepare_shipping td df)"
    and "provided_canonical (provided_normalized_lot_id r) = Some p"
    and "canonical_lot_id r = Some c" and "p \<noteq> c"
  shows "needs_review r \<and> review_reason r = AMBIGUOUS_LOT_MATCH"
proof -
  from assms(1) obtain r0 lot prov d ext where
    "r = prepared_row.extend (snd (prepare_common td r0 lot prov d ''shipping'')) ext"
    by (rule prepare_shipping_row)
  then show ?thesis by (rule ambiguous_common[OF assms(2,3,4)])
qed

text \<open>
  Claim C7, as amended. In both preparations, when the provided \<open>normalized_lot_id\<close>
  normalizes to a canonical id, the raw lot id normalizes to a canonical id as well, and
  the two differ, the prepared row has \<open>needs_review\<close> set and its \<open>review_reason\<close> is
  exactly the ambiguity message: whatever date or lot reason had been accumulated is
  overwritten, not extended.
\<close>

theorem prepare_ambiguity_overwrites_reason:
  "(\<forall>r \<in> set (prepare_production to_datetime production_df). \<forall>p c.
      provided_canonical (provided_normalized_lot_id r) = Some p \<and> canonical_lot_id r = Some c \<and> p \<noteq> c
      \<longrightarrow> needs_review r \<and> review_reason r = AMBIGUOUS_LOT_MATCH) \<and>
   (\<forall>r \<in> set (prepare_shipping to_datetime shipping_df). \<forall>p c.
      provided_canonical (provided_normalized_lot_id r) = Some p \<and> canonical_lot_id r = Some c \<and> p \<noteq> c
      \<longrightarrow> needs_review r \<and> review_reason r = AMBIGUOUS_LOT_MATCH)"
  using ambiguous_production ambiguous_shipping by blast

theorem prepare_ambiguity_overwrites_reason_witness:
  "map (provided_canonical \<circ> provided_normalized_lot_id)
     (prepare_production sample_to_datetime ambiguous_lot_rows) = [Some ''LOT-20260101-001''] \<and>
   map canonical_lot_id (prepare_production sample_to_datetime ambiguous_lot_rows) =
     [Some ''LOT-20260101-002''] \<and>
   map date_error_reason (prepare_production sample_to_datetime ambiguous_lot_rows) =
     [Some (''Unparseable date value: '' @ [CHR 0x27] @ ''bad-date'' @ [CHR 0x27])] \<and>
   needs_review (hd (prepare_production sample_to_datetime ambiguous_lot_rows)) \<and>
   review_reason (hd (prepare_production sample_to_datetime ambiguous_lot_rows)) =
     ''Ambiguous lot match: provided normalized_lot_id conflicts with raw lot normalization'' \<and>
   needs_review (hd (prepare_shipping sample_to_datetime ambiguous_lot_rows)) \<and>
   review_reason (hd (prepare_shipping sample_to_datetime ambiguous_lot_rows)) =
     ''Ambiguous lot match: provided normalized_lot_id conflicts with raw lot normalization''"
proof -
  let ?P = "prepare_production sample_to_datetime ambiguous_lot_rows"
  let ?S = "prepare_shipping sample_to_datetime ambiguous_lot_rows"
  have pp: "map (provided_canonical \<circ> provided_normalized_lot_id) ?P = [Some ''LOT-20260101-001'']"
    and pc: "map canonical_lot_id ?P = [Some ''LOT-20260101-002'']"
    and pd: "map date_error_reason ?P =
               [Some (''Unparseable date value: '' @ [CHR 0x27] @ ''bad-date'' @ [CHR 0x27])]"
    and sp: "map (provided_canonical \<circ> provided_normalized_lot_id) ?S = [Some ''LOT-20260101-001'']"
    and sc: "map canonical_lot_id ?S = [Some ''LOT-20260101-002'']"
    by code_simp+
  have hp: "provided_canonical (provided_normalized_lot_id (hd ?P)) = Some ''LOT-20260101-001''"
    "canonical_lot_id (hd ?P) = Some ''LOT-20260101-002''"
    using pp pc by (cases ?P; simp)+
  have hs: "provided_canonical (provided_normalized_lot_id (hd ?S)) = Some ''LOT-20260101-001''"
    "canonical_lot_id (hd ?S) = Some ''LOT-20260101-002''"
    using sp sc by (cases ?S; simp)+
  have ne: "''LOT-20260101-001'' \<noteq> ''LOT-20260101-002''" by simp
  note all = prepare_ambiguity_overwrites_reason[of sample_to_datetime ambiguous_lot_rows
      ambiguous_lot_rows]
  from all hd_of_mapped[OF pc] hp ne
  have a: "needs_review (hd ?P) \<and> review_reason (hd ?P) = AMBIGUOUS_LOT_MATCH" by blast
  from all hd_of_mapped[OF sc] hs ne
  have b: "needs_review (hd ?S) \<and> review_reason (hd ?S) = AMBIGUOUS_LOT_MATCH" by blast
  show ?thesis using a b pp pc pd by (simp add: AMBIGUOUS_LOT_MATCH_def)
qed

text \<open>
  A provided lot that normalizes while the raw lot does not: the two disagree, yet the
  reason stays the lot error.
\<close>

theorem prepare_ambiguity_without_raw_lot_counterexample:
  "map (provided_canonical \<circ> provided_normalized_lot_id)
       (prepare_production sample_to_datetime unnormalizable_lot_rows) = [Some ''LOT-20260101-001''] \<and>
    map canonical_lot_id (prepare_production sample_to_datetime unnormalizable_lot_rows) = [None] \<and>
    map needs_review (prepare_production sample_to_datetime unnormalizable_lot_rows) = [True] \<and>
    map review_reason (prepare_production sample_to_datetime unnormalizable_lot_rows) =
      [''Lot ID does not match expected pattern: '' @ [CHR 0x27] @ ''BADLOT'' @ [CHR 0x27]]"
  by code_simp

lemma ts_normalize_day:
  "ts_normalize t mod day_ns = 0 \<and> ts_normalize t \<le> t \<and> t < ts_normalize t + day_ns"
proof -
  have pos: "0 < day_ns" by (simp add: day_ns_def)
  have m: "0 \<le> t mod day_ns" "t mod day_ns < day_ns"
    using pos by simp_all
  have "ts_normalize t = day_ns * (t div day_ns)"
    by (simp add: ts_normalize_def minus_mod_eq_mult_div)
  then have "ts_normalize t mod day_ns = 0" by simp
  moreover have "ts_normalize t \<le> t" "t < ts_normalize t + day_ns"
    using m by (simp_all add: ts_normalize_def)
  ultimately show ?thesis by simp
qed

lemma pd_to_datetime_modes:
  "pd_to_datetime reading errors_coerce v = Inr (reading v)"
  "reading v = None \<Longrightarrow> pd_to_datetime reading errors_raise v = Inl ValueError"
  by (simp_all add: pd_to_datetime_def split: option.splits)

lemma parse_mixed_date_outcome_returns:
  "parse_mixed_date_outcome reading v = Inr (parse_mixed_date reading v)"
  by (simp add: parse_mixed_date_outcome_def parse_mixed_date_def pd_to_datetime_modes
      split: option.splits)

text \<open>
  Claim C2, as amended. \<open>parse_mixed_date\<close> never raises: for every input it returns a
  (date, reason) pair, the pandas call being made with \<open>errors="coerce"\<close>. A null input
  (\<open>None\<close> or \<open>nan\<close>) yields an absent date with reason exactly \<open>Date is empty\<close>. Every
  other input pandas does not read, the empty text included, yields an absent date with
  the reason \<open>Unparseable date value: \<close> followed by the \<open>repr\<close> of the input, which is
  not empty and is never \<open>Date is empty\<close>. On success it returns the timestamp reset to
  midnight of its day and no reason.
\<close>

theorem parse_mixed_date_reasons:
  "(\<exists>date why. parse_mixed_date_outcome to_datetime v = Inr (date, why)) \<and>
   parse_mixed_date_outcome to_datetime v = Inr (parse_mixed_date to_datetime v) \<and>
   (is_missing v \<longrightarrow> parse_mixed_date to_datetime v = (None, Some ''Date is empty'')) \<and>
   (\<not> is_missing v \<and> to_datetime v = None \<longrightarrow>
      parse_mixed_date to_datetime v = (None, Some (''Unparseable date value: '' @ py_repr v))) \<and>
   (\<forall>t. \<not> is_missing v \<and> to_datetime v = Some t \<longrightarrow>
      parse_mixed_date to_datetime v = (Some (ts_normalize t), None) \<and>
      ts_normalize t mod day_ns = 0 \<and> ts_normalize t \<le> t \<and> t < ts_normalize t + day_ns) \<and>
   (\<not> is_missing v \<longrightarrow> snd (parse_mixed_date to_datetime v) \<noteq> Some ''Date is empty'') \<and>
   (fst (parse_mixed_date to_datetime v) = None \<longrightarrow>
      (\<exists>why. snd (parse_mixed_date to_datetime v) = Some why \<and> why \<noteq> []))"
proof -
  have returns: "\<exists>date why. parse_mixed_date_outcome to_datetime v = Inr (date, why)"
    by (cases "parse_mixed_date to_datetime v") (simp add: parse_mixed_date_outcome_returns)
  have reasons:
    "(is_missing v \<longrightarrow> parse_mixed_date to_datetime v = (None, Some ''Date is empty'')) \<and>
     (\<not> is_missing v \<and> to_datetime v = None \<longrightarrow>
        parse_mixed_date to_datetime v = (None, Some (''Unparseable date value: '' @ py_repr v))) \<and>
     (\<forall>t. \<not> is_missing v \<and> to_datetime v = Some t \<longrightarrow>
        parse_mixed_date to_datetime v = (Some (ts_normalize t), None) \<and>
        ts_normalize t mod day_ns = 0 \<and> ts_normalize t \<le> t \<and> t < ts_normalize t + day_ns) \<and>
     (\<not> is_missing v \<longrightarrow> snd (parse_mixed_date to_datetime v) \<noteq> Some ''Date is empty'') \<and>
     (fst (parse_mixed_date to_datetime v) = None \<longrightarrow>
        (\<exists>why. snd (parse_mixed_date to_datetime v) = Some why \<and> why \<noteq> []))"
    using ts_normalize_day
    by (auto simp: parse_mixed_date_def split: option.splits)
  show ?thesis
    by (intro conjI) (rule returns parse_mixed_date_outcome_returns reasons[THEN conjunct1]
        reasons[THEN conjunct2, THEN conjunct1]
        reasons[THEN conjunct2, THEN conjunct2, THEN conjunct1]
        reasons[THEN conjunct2, THEN conjunct2, THEN conjunct2, THEN conjunct1]
        reasons[THEN conjunct2, THEN conjunct2, THEN conjunct2, THEN conjunct2])+
qed

theorem parse_mixed_date_reasons_witness:
  "parse_mixed_date_outcome sample_to_datetime CNaN = Inr (None, Some ''Date is empty'') \<and>
   parse_mixed_date_outcome sample_to_datetime (CStr ''bad-date'') =
     Inr (None, Some (''Unparseable date value: '' @ [CHR 0x27] @ ''bad-date'' @ [CHR 0x27])) \<and>
   parse_mixed_date_outcome sample_to_datetime (CStr ''2026-02-02'') =
     Inr (Some 1769990400000000000, None) \<and>
   parse_mixed_date sample_to_datetime CNaN = (None, Some ''Date is empty'') \<and>
   parse_mixed_date sample_to_datetime (CStr ''bad-date'') =
     (None, Some (''Unparseable date value: '' @ [CHR 0x27] @ ''bad-date'' @ [CHR 0x27])) \<and>
   parse_mixed_date sample_to_datetime (CStr ''2026-02-02'') = (Some 1769990400000000000, None)"
proof -
  have m: "is_missing CNaN" "\<not> is_missing (CStr ''bad-date'')" "\<not> is_missing (CStr ''2026-02-02'')"
    by (simp_all add: is_missing_def)
  have bad: "sample_to_datetime (CStr ''bad-date'') = None"
    by code_simp
  have good: "sample_to_datetime (CStr ''2026-02-02'') = Some 1769990400000000000"
    by code_simp
  have midnight: "ts_normalize 1769990400000000000 = 1769990400000000000"
    by (simp add: ts_normalize_def day_ns_def)
  have r: "py_repr (CStr ''bad-date'') = [CHR 0x27] @ ''bad-date'' @ [CHR 0x27]"
    by code_simp
  note empty = parse_mixed_date_reasons[of sample_to_datetime CNaN]
  note unread = parse_mixed_date_reasons[of sample_to_datetime "CStr ''bad-date''"]
  note read = parse_mixed_date_reasons[of sample_to_datetime "CStr ''2026-02-02''"]
  have p1: "parse_mixed_date sample_to_datetime CNaN = (None, Some ''Date is empty'')"
    using empty m(1) by blast
  have p2: "parse_mixed_date sample_to_datetime (CStr ''bad-date'') =
     (None, Some (''Unparseable date value: '' @ [CHR 0x27] @ ''bad-date'' @ [CHR 0x27]))"
    using unread m(2) bad r by simp
  have p3: "parse_mixed_date sample_to_datetime (CStr ''2026-02-02'') =
     (Some 1769990400000000000, None)"
    using read m(3) good midnight by simp
  have o1: "parse_mixed_date_outcome sample_to_datetime CNaN = Inr (None, Some ''Date is empty'')"
    using empty[THEN conjunct2, THEN conjunct1] p1 by simp
  have o2: "parse_mixed_date_outcome sample_to_datetime (CStr ''bad-date'') =
     Inr (None, Some (''Unparseable date value: '' @ [CHR 0x27] @ ''bad-date'' @ [CHR 0x27]))"
    using unread[THEN conjunct2, THEN conjunct1] p2 by simp
  have o3: "parse_mixed_date_outcome sample_to_datetime (CStr ''2026-02-02'') =
     Inr (Some 1769990400000000000, None)"
    using read[THEN conjunct2, THEN conjunct1] p3 by simp
  show ?thesis
    by (intro conjI) (rule o1 o2 o3 p1 p2 p3)+
qed

text \<open>
  The empty text is not a missing cell: the function returns, and its reason is the one
  of an unparseable value.
\<close>

theorem parse_mixed_date_empty_text_counterexample:
  "parse_mixed_date_outcome sample_to_datetime (CStr []) =
     Inr (None, Some (''Unparseable date value: '' @ [CHR 0x27, CHR 0x27])) \<and>
   parse_mixed_date sample_to_datetime (CStr []) =
     (None, Some (''Unparseable date value: '' @ [CHR 0x27, CHR 0x27])) \<and>
   snd (parse_mixed_date sample_to_datetime (CStr [])) \<noteq> Some ''Date is empty''"
  by code_simp

section \<open>Properties of the latest shipping selection\<close>

subsection \<open>drop_duplicates\<close>

lemma set_drop_duplicates_subset: "set (drop_duplicates k xs) \<subseteq> set xs"
  by (induction k xs rule: drop_duplicates.induct) auto

lemma keys_drop_duplicates: "k ` set (drop_duplicates k xs) = k ` set xs"
  by (induction k xs rule: drop_duplicates.induct) auto

lemma distinct_keys_drop_duplicates: "distinct (map k (drop_duplicates k xs))"
proof (induction k xs rule: drop_duplicates.induct)
  case (1 k)
  show ?case by simp
next
  case (2 k x xs)
  have "k x \<notin> k ` set (drop_duplicates k (filter (\<lambda>y. k y \<noteq> k x) xs))"
    by (auto simp: keys_drop_duplicates)
  with 2 show ?case by simp
qed

lemma filter_filter_key:
  "k z \<noteq> k x \<Longrightarrow> filter (\<lambda>y. k y = k z) (filter (\<lambda>y. k y \<noteq> k x) xs) = filter (\<lambda>y. k y = k z) xs"
  by (induction xs) auto

lemma drop_duplicates_first:
  "z \<in> set (drop_duplicates k xs) \<Longrightarrow> \<exists>rest. filter (\<lambda>y. k y = k z) xs = z # rest"
proof (induction k xs rule: drop_duplicates.induct)
  case (1 k)
  then show ?case by simp
next
  case (2 k x xs)
  show ?case
  proof (cases "k z = k x")
    case True
    have "z \<notin> set (drop_duplicates k (filter (\<lambda>y. k y \<noteq> k x) xs))"
      using set_drop_duplicates_subset[of k "filter (\<lambda>y. k y \<noteq> k x) xs"] True by auto
    with "2.prems" have "z = x" by simp
    then show ?thesis by simp
  next
    case False
    with "2.prems" have "z \<in> set (drop_duplicates k (filter (\<lambda>y. k y \<noteq> k x) xs))"
      by auto
    from "2.IH"[OF this] obtain rest where
      "filter (\<lambda>y. k y = k z) (filter (\<lambda>y. k y \<noteq> k x) xs) = z # rest" by blast
    then have "filter (\<lambda>y. k y = k z) xs = z # rest"
      using filter_filter_key[of k z x xs] False by simp
    with False show ?thesis by auto
  qed
qed

lemma find_of_filter: "filter P xs = x # rest \<Longrightarrow> List.find P xs = Some x"
  by (induction xs) (auto split: if_splits)

subsection \<open>The sort key\<close>

lemma ship_sort_key_le:
  "canonical_lot_id a = canonical_lot_id b \<Longrightarrow>
   (ship_sort_key a \<le> ship_sort_key b) = (shipping_row.ship_date b \<le> shipping_row.ship_date a)"
  by (auto simp: ship_sort_key_def less_eq_prod_def split: option.splits)

lemma ship_sort_key_eq:
  "(ship_sort_key a = ship_sort_key b) =
   (canonical_lot_id a = canonical_lot_id b \<and> shipping_row.ship_date a = shipping_row.ship_date b)"
  by (auto simp: ship_sort_key_def split: option.splits)

subsection \<open>The latest row of a lot\<close>

lemma latest_shipping_keys:
  "set (map canonical_lot_id (latest_shipping_by_lot xs)) =
     {c \<in> set (map canonical_lot_id xs). c \<noteq> None}"
proof -
  have "canonical_lot_id ` set (latest_shipping_by_lot xs) =
          canonical_lot_id ` set (filter (\<lambda>r. opt_notna (canonical_lot_id r)) xs)"
    by (simp add: latest_shipping_by_lot_def keys_drop_duplicates)
  also have "\<dots> = {c \<in> canonical_lot_id ` set xs. c \<noteq> None}"
    by (auto simp: opt_notna_def split: option.splits)
  finally show ?thesis by simp
qed

lemma latest_shipping_row:
  assumes r: "r \<in> set (latest_shipping_by_lot xs)"
  shows "r \<in> set xs"
    and "\<forall>r' \<in> set xs. canonical_lot_id r' = canonical_lot_id r \<longrightarrow>
           shipping_row.ship_date r' \<le> shipping_row.ship_date r"
    and "List.find (\<lambda>x. canonical_lot_id x = canonical_lot_id r \<and>
                        shipping_row.ship_date x = shipping_row.ship_date r) xs = Some r"
proof -
  define valid where "valid = filter (\<lambda>r. opt_notna (canonical_lot_id r)) xs"
  define srt where "srt = sort_key ship_sort_key valid"
  have res: "latest_shipping_by_lot xs = drop_duplicates canonical_lot_id srt"
    by (simp add: latest_shipping_by_lot_def valid_def srt_def)
  have r_srt: "r \<in> set srt"
    using r set_drop_duplicates_subset[of canonical_lot_id srt] by (auto simp: res)
  then have r_valid: "r \<in> set valid" by (simp add: srt_def)
  then show r_xs: "r \<in> set xs" by (simp add: valid_def)
  have r_lot: "opt_notna (canonical_lot_id r)" using r_valid by (simp add: valid_def)
  obtain rest where first: "filter (\<lambda>y. canonical_lot_id y = canonical_lot_id r) srt = r # rest"
    using drop_duplicates_first[of r canonical_lot_id srt] r by (auto simp: res)
  have mates: "set (r # rest) = {y \<in> set xs. canonical_lot_id y = canonical_lot_id r}"
  proof -
    have "set (r # rest) = {y \<in> set valid. canonical_lot_id y = canonical_lot_id r}"
      unfolding first[symmetric] by (auto simp: srt_def)
    also have "\<dots> = {y \<in> set xs. canonical_lot_id y = canonical_lot_id r}"
      using r_lot by (auto simp: valid_def)
    finally show ?thesis .
  qed
  have "sorted (map ship_sort_key (filter (\<lambda>y. canonical_lot_id y = canonical_lot_id r) srt))"
    unfolding srt_def by (simp add: filter_sort)
  then have least: "\<forall>y \<in> set rest. ship_sort_key r \<le> ship_sort_key y"
    by (simp add: first)
  show "\<forall>r' \<in> set xs. canonical_lot_id r' = canonical_lot_id r \<longrightarrow>
          shipping_row.ship_date r' \<le> shipping_row.ship_date r"
  proof (intro ballI impI)
    fix r' assume "r' \<in> set xs" and same: "canonical_lot_id r' = canonical_lot_id r"
    then have "r' \<in> set (r # rest)" unfolding mates by simp
    then have "ship_sort_key r \<le> ship_sort_key r'" using least by auto
    then show "shipping_row.ship_date r' \<le> shipping_row.ship_date r"
      using ship_sort_key_le[of r r'] same by simp
  qed
  have "filter (\<lambda>y. ship_sort_key y = ship_sort_key r) xs =
          filter (\<lambda>y. ship_sort_key y = ship_sort_key r) valid"
    using r_lot by (auto simp: valid_def ship_sort_key_eq intro: filter_cong)
  also have "\<dots> = filter (\<lambda>y. ship_sort_key y = ship_sort_key r) srt"
    by (simp add: srt_def sort_key_stable)
  also have "\<dots> = filter (\<lambda>y. ship_sort_key y = ship_sort_key r)
                     (filter (\<lambda>y. canonical_lot_id y = canonical_lot_id r) srt)"
    by (auto simp: ship_sort_key_eq intro: filter_cong)
  also have "\<dots> = r # filter (\<lambda>y. ship_sort_key y = ship_sort_key r) rest"
    by (simp add: first)
  finally have "List.find (\<lambda>y. ship_sort_key y = ship_sort_key r) xs = Some r"
    by (rule find_of_filter)
  then show "List.find (\<lambda>x. canonical_lot_id x = canonical_lot_id r \<and>
                  shipping_row.ship_date x = shipping_row.ship_date r) xs = Some r"
    by (simp add: ship_sort_key_eq)
qed

text \<open>
  Claim C6. \<open>_latest_shipping_by_lot\<close> returns exactly one row per canonical lot id that
  occurs in the shipping table, and no row without one. The row of a lot is a row of the
  table whose parsed ship date is the greatest among the rows of that lot, \<open>NaT\<close> ranking
  below every date (the order on \<open>timestamp option\<close> has \<open>None\<close> as its least element), and
  among the rows of the lot with that date it is the first in the original order.
\<close>

theorem latest_shipping_by_lot_selects_latest:
  "distinct (map canonical_lot_id (latest_shipping_by_lot shipping_rows)) \<and>
   set (map canonical_lot_id (latest_shipping_by_lot shipping_rows)) =
     {c \<in> set (map canonical_lot_id shipping_rows). c \<noteq> None} \<and>
   (\<forall>r \<in> set (latest_shipping_by_lot shipping_rows).
      r \<in> set shipping_rows \<and>
      (\<forall>r' \<in> set shipping_rows. canonical_lot_id r' = canonical_lot_id r \<longrightarrow>
         shipping_row.ship_date r' \<le> shipping_row.ship_date r) \<and>
      List.find (\<lambda>x. canonical_lot_id x = canonical_lot_id r \<and>
                     shipping_row.ship_date x = shipping_row.ship_date r) shipping_rows = Some r)"
proof -
  have one: "distinct (map canonical_lot_id (latest_shipping_by_lot shipping_rows))"
    by (simp add: latest_shipping_by_lot_def distinct_keys_drop_duplicates)
  have each: "\<forall>r \<in> set (latest_shipping_by_lot shipping_rows).
      r \<in> set shipping_rows \<and>
      (\<forall>r' \<in> set shipping_rows. canonical_lot_id r' = canonical_lot_id r \<longrightarrow>
         shipping_row.ship_date r' \<le> shipping_row.ship_date r) \<and>
      List.find (\<lambda>x. canonical_lot_id x = canonical_lot_id r \<and>
                     shipping_row.ship_date x = shipping_row.ship_date r) shipping_rows = Some r"
  proof (rule ballI)
    fix r assume r: "r \<in> set (latest_shipping_by_lot shipping_rows)"
    show "r \<in> set shipping_rows \<and>
      (\<forall>r' \<in> set shipping_rows. canonical_lot_id r' = canonical_lot_id r \<longrightarrow>
         shipping_row.ship_date r' \<le> shipping_row.ship_date r) \<and>
      List.find (\<lambda>x. canonical_lot_id x = canonical_lot_id r \<and>
                     shipping_row.ship_date x = shipping_row.ship_date r) shipping_rows = Some r"
      by (intro conjI) (rule latest_shipping_row[OF r])+
  qed
  show ?thesis
    by (intro conjI) (rule one latest_shipping_keys each)+
qed

theorem latest_shipping_by_lot_selects_latest_witness:
  "map source_row (latest_shipping_by_lot (prepare_shipping sample_to_datetime tied_shipping)) = [4] \<and>
   map canonical_lot_id (prepare_shipping sample_to_datetime tied_shipping) =
     [Some ''LOT-20260203-001'', Some ''LOT-20260203-001'', Some ''LOT-20260203-001'',
      Some ''LOT-20260203-001'', None] \<and>
   map shipping_row.ship_date (prepare_shipping sample_to_datetime tied_shipping) =
     [Some 1770336000000000000, None, Some 1770422400000000000, Some 1770422400000000000,
      Some 1770595200000000000] \<and>
   hd (latest_shipping_by_lot (prepare_shipping sample_to_datetime tied_shipping))
     \<in> set (prepare_shipping sample_to_datetime tied_shipping) \<and>
   List.find (\<lambda>x. canonical_lot_id x =
                    canonical_lot_id (hd (latest_shipping_by_lot (prepare_shipping sample_to_datetime tied_shipping))) \<and>
                  shipping_row.ship_date x =
                    shipping_row.ship_date (hd (latest_shipping_by_lot (prepare_shipping sample_to_datetime tied_shipping))))
     (prepare_shipping sample_to_datetime tied_shipping)
     = Some (hd (latest_shipping_by_lot (prepare_shipping sample_to_datetime tied_shipping)))"
proof -
  let ?T = "prepare_shipping sample_to_datetime tied_shipping"
  have rows: "map source_row (latest_shipping_by_lot ?T) = [4]"
    and lots: "map canonical_lot_id ?T =
       [Some ''LOT-20260203-001'', Some ''LOT-20260203-001'', Some ''LOT-20260203-001'',
        Some ''LOT-20260203-001'', None]"
    and dates: "map shipping_row.ship_date ?T =
       [Some 1770336000000000000, None, Some 1770422400000000000, Some 1770422400000000000,
        Some 1770595200000000000]"
    by code_simp+
  from latest_shipping_by_lot_selects_latest[of ?T] hd_of_mapped[OF rows]
  have "hd (latest_shipping_by_lot ?T) \<in> set ?T \<and>
    List.find (\<lambda>x. canonical_lot_id x = canonical_lot_id (hd (latest_shipping_by_lot ?T)) \<and>
                   shipping_row.ship_date x = shipping_row.ship_date (hd (latest_shipping_by_lot ?T))) ?T
      = Some (hd (latest_shipping_by_lot ?T))"
    by blast
  then show ?thesis using rows lots dates by simp
qed

section \<open>Properties of the weekly ranking\<close>

lemma distinct_filter_eq:
  "distinct xs \<Longrightarrow> filter (\<lambda>y. y = k) xs = (if k \<in> set xs then [k] else [])"
  by (induction xs) auto

lemma ranking_line_aggregate: "ranking_row.production_line (aggregate_line cur k) = k"
  by (simp add: aggregate_line_def)

lemma ranking_of_line:
  "filter (\<lambda>e. ranking_row.production_line e = k) (ranking_of cur) =
     (if k \<in> set (map (\<lambda>r. line_key (production_row.production_line r)) cur)
      then [aggregate_line cur k] else [])"
proof -
  define keys where
    "keys = sort_key nan_last (remdups (map (\<lambda>r. line_key (production_row.production_line r)) cur))"
  have d: "distinct keys" by (simp add: keys_def)
  have s: "set keys = set (map (\<lambda>r. line_key (production_row.production_line r)) cur)"
    by (simp add: keys_def)
  have "filter (\<lambda>e. ranking_row.production_line e = k) (map (aggregate_line cur) keys) =
          map (aggregate_line cur) (filter (\<lambda>y. y = k) keys)"
    by (simp add: filter_map comp_def ranking_line_aggregate)
  also have "\<dots> = (if k \<in> set keys then [aggregate_line cur k] else [])"
    by (simp add: distinct_filter_eq[OF d])
  finally show ?thesis
    by (simp add: ranking_of_def keys_def[symmetric] filter_sort s del: set_map)
qed

lemma set_map_filter_Some: "set (List.map_filter f xs) = {y. \<exists>x \<in> set xs. f x = Some y}"
  by (induction xs) (auto split: option.splits)

lemma unique_lots_card:
  "length (remdups (List.map_filter canonical_lot_id rows)) =
     card {lot. \<exists>r \<in> set rows. canonical_lot_id r = Some lot}"
  by (simp add: length_remdups_card_conv set_map_filter_Some)

text \<open>
  Claim C10. In the ranking of \<open>weekly_summary\<close> the rows of the current week whose
  \<open>production_line\<close> is missing are not dropped: for every group key \<open>k\<close>, the missing key
  \<open>None\<close> included, the ranking has exactly one row of that key when the current week has a
  row of it and none otherwise; its \<open>issue_count\<close> is the number of these rows with
  \<open>line_issue\<close>, its \<open>total_rows\<close> their number, its \<open>unique_lots\<close> the number of distinct
  canonical lots among them, and the key is kept as it is (no \<open>Unspecified\<close> stands in
  for the missing line).
\<close>

theorem weekly_ranking_keeps_missing_line:
  "filter (\<lambda>e. ranking_row.production_line e = k)
     (ranking (weekly_summary config table anchor_date)) =
   (let current = window_rows (fst (week_bounds anchor_date)) (snd (week_bounds anchor_date)) table;
        members = filter (\<lambda>r. line_key (production_row.production_line r) = k) current
    in if members = [] then []
       else [\<lparr>ranking_row.production_line = k,
              issue_count = int (length (filter line_issue members)),
              total_rows = int (length members),
              unique_lots = int (card {lot. \<exists>r \<in> set members. canonical_lot_id r = Some lot})\<rparr>])"
proof -
  define current where
    "current = window_rows (fst (week_bounds anchor_date)) (snd (week_bounds anchor_date)) table"
  have r: "ranking (weekly_summary config table anchor_date) = ranking_of current"
    by (simp add: weekly_summary_def current_def Let_def case_prod_beta)
  have m: "(k \<in> set (map (\<lambda>r. line_key (production_row.production_line r)) current)) =
           (filter (\<lambda>r. line_key (production_row.production_line r) = k) current \<noteq> [])"
    by (auto simp: filter_empty_conv)
  show ?thesis
    unfolding r ranking_of_line m Let_def current_def[symmetric]
    by (simp add: aggregate_line_def line_group_def unique_lots_card)
qed

theorem weekly_ranking_keeps_missing_line_witness:
  "filter (\<lambda>e. ranking_row.production_line e = None)
     (ranking (weekly_summary default_config unnamed_line_table 1770163200000000000)) =
     [\<lparr>ranking_row.production_line = None, issue_count = 1, total_rows = 2, unique_lots = 1\<rparr>] \<and>
   (let current = window_rows (fst (week_bounds 1770163200000000000))
                    (snd (week_bounds 1770163200000000000)) unnamed_line_table;
        members = filter (\<lambda>r. line_key (production_row.production_line r) = None) current
    in if members = [] then []
       else [\<lparr>ranking_row.production_line = None,
              issue_count = int (length (filter line_issue members)),
              total_rows = int (length members),
              unique_lots = int (card {lot. \<exists>r \<in> set members. canonical_lot_id r = Some lot})\<rparr>]) =
     [\<lparr>ranking_row.production_line = None, issue_count = 1, total_rows = 2, unique_lots = 1\<rparr>] \<and>
   map ranking_row.production_line
     (ranking (weekly_summary default_config unnamed_line_table 1770163200000000000)) =
     [None, Some ''Line 1'']"
proof -
  have ev: "filter (\<lambda>e. ranking_row.production_line e = None)
     (ranking (weekly_summary default_config unnamed_line_table 1770163200000000000)) =
     [\<lparr>ranking_row.production_line = None, issue_count = 1, total_rows = 2, unique_lots = 1\<rparr>]"
    by code_simp
  have all: "map ranking_row.production_line
     (ranking (weekly_summary default_config unnamed_line_table 1770163200000000000)) =
     [None, Some ''Line 1'']"
    by code_simp
  show ?thesis
    using weekly_ranking_keeps_missing_line[of None default_config unnamed_line_table
        1770163200000000000, symmetric] ev all
    by (simp only: simp_thms)
qed

section \<open>Properties of the consolidation\<close>

subsection \<open>The review columns\<close>

lemma consolidate_logs_own_ship_status:
  "''ship_status'' \<in> set (columns production_df) \<Longrightarrow>
   consolidate_logs to_datetime production_df shipping_df include_flagged = Inl KeyError"
  by (simp add: consolidate_logs_def merge_suffixed_columns_def Let_def)

lemma consolidate_logs_own_ship_status_sample:
  "consolidate_logs sample_to_datetime shipped_note_production clean_shipping True = Inl KeyError"
  by code_simp

lemma finalize_row_unmatched:
  assumes "\<not> notna (consolidated_row.ship_status r)"
  shows "shipping_match_status (finalize_row lots r) = ''unmatched''"
    and "needs_review (finalize_row lots r)"
    and "review_reason (finalize_row lots r) =
           (if review_reason r = [] then ''No matching shipping lot found'' else review_reason r)"
  using assms by (simp_all add: finalize_row_def Let_def)

lemma finalize_row_matched:
  assumes "notna (consolidated_row.ship_status r)"
  shows "shipping_match_status (finalize_row lots r) = ''matched''"
    and "needs_review (finalize_row lots r) = needs_review r"
    and "review_reason (finalize_row lots r) =
           (if review_reason r = [] then ''No matching shipping lot found'' else review_reason r)"
  using assms by (simp_all add: finalize_row_def Let_def)

text \<open>
  Claim C3. The claim: an unmatched row gets \<open>shipping_match_status = unmatched\<close>,
  \<open>needs_review\<close> and, when its reason was empty, the reason
  \<open>No matching shipping lot found\<close>; a matched row never gets that reason. The first part
  is \<open>finalize_row_unmatched\<close>. The code fills every empty reason, whatever the match
  status (\<open>finalize_row_matched\<close>): a production row with nothing to review that has its
  shipping row comes out matched, not to be reviewed, and with the reason
  \<open>No matching shipping lot found\<close>.
\<close>

theorem consolidate_logs_default_reason_on_matched_row:
  "map_sum id (\<lambda>result. map shipping_match_status (consolidated result))
           (consolidate_logs sample_to_datetime clean_production clean_shipping False) = Inr [''matched''] \<and>
  map_sum id (\<lambda>result. map needs_review (consolidated result))
           (consolidate_logs sample_to_datetime clean_production clean_shipping False) = Inr [False] \<and>
  map_sum id (\<lambda>result. map review_reason (consolidated result))
           (consolidate_logs sample_to_datetime clean_production clean_shipping False) = Inr [''No matching shipping lot found''] \<and>
  map review_reason (prepare_production sample_to_datetime clean_production) = [[]]"
  by code_simp

subsection \<open>The alias evidence\<close>

lemma join_row_aliases: "raw_lot_aliases (finalize_row lots (join_row p m)) = None"
  by (simp add: finalize_row_def join_row_def Let_def production_row.defs consolidated_row.defs)

lemma left_merge_rows:
  assumes "r \<in> set (left_merge prod_t latest)"
  shows "\<exists>p m. r = join_row p m"
proof -
  from assms obtain p where
    "r \<in> set (case filter (\<lambda>s. canonical_lot_id s = canonical_lot_id p) latest of
                 [] \<Rightarrow> [join_row p None]
               | matches \<Rightarrow> map (\<lambda>s. join_row p (Some s)) matches)"
    by (auto simp: left_merge_def)
  then show ?thesis
    by (cases "filter (\<lambda>s. canonical_lot_id s = canonical_lot_id p) latest") auto
qed

lemma consolidate_logs_flagged_rows:
  assumes "consolidate_logs to_datetime production_df shipping_df include_flagged = Inr result"
  shows "\<exists>lots. flagged_rows result =
           filter needs_review
             (map (finalize_row lots)
                (left_merge (prepare_production to_datetime production_df)
                   (latest_shipping_by_lot (prepare_shipping to_datetime shipping_df))))"
  using assms by (auto simp: consolidate_logs_def Let_def split: sum.splits if_splits)

lemma flagged_rows_have_no_aliases:
  assumes "consolidate_logs to_datetime production_df shipping_df include_flagged = Inr result"
    and "r \<in> set (flagged_rows result)"
  shows "raw_lot_aliases r = None"
proof -
  from consolidate_logs_flagged_rows[OF assms(1)] assms(2) obtain lots x where
    "x \<in> set (left_merge (prepare_production to_datetime production_df)
                 (latest_shipping_by_lot (prepare_shipping to_datetime shipping_df)))"
    and "r = finalize_row lots x"
    by auto
  then show ?thesis
    using left_merge_rows join_row_aliases by metis
qed

lemma set_alias_pairs:
  "set (alias_pairs rows) =
     {(lot, py_str (raw_lot_id x)) | lot x. x \<in> set rows \<and> canonical_lot_id x = Some lot}"
  by (auto simp: alias_pairs_def set_map_filter_Some)

lemma sorted_aliases_Some:
  "sorted (sorted_aliases pairs lot) \<and> distinct (sorted_aliases pairs lot) \<and>
   set (sorted_aliases pairs lot) = {a. \<exists>l. lot = Some l \<and> (l, a) \<in> set pairs}"
  by (cases lot) (force simp: sorted_aliases_def image_iff)+

lemma consolidate_logs_consolidated_rows:
  assumes "consolidate_logs to_datetime production_df shipping_df include_flagged = Inr result"
    and "r \<in> set (consolidated result)"
  shows "raw_lot_aliases r =
           Some (sorted_aliases (alias_pairs (production result) @ alias_pairs (shipping result))
                   (canonical_lot_id r))"
  using assms
  by (auto simp: consolidate_logs_def Let_def split: sum.splits if_splits)

lemma consolidated_rows_carry_aliases:
  assumes "consolidate_logs to_datetime production_df shipping_df include_flagged = Inr result"
    and "r \<in> set (consolidated result)"
  shows "\<exists>aliases. raw_lot_aliases r = Some aliases \<and> sorted aliases \<and> distinct aliases \<and>
           set aliases =
             {py_str (raw_lot_id x) | x. x \<in> set (production result) \<and>
                canonical_lot_id x \<noteq> None \<and> canonical_lot_id x = canonical_lot_id r} \<union>
             {py_str (raw_lot_id x) | x. x \<in> set (shipping result) \<and>
                canonical_lot_id x \<noteq> None \<and> canonical_lot_id x = canonical_lot_id r}"
proof -
  let ?pairs = "alias_pairs (production result) @ alias_pairs (shipping result)"
  have a: "raw_lot_aliases r = Some (sorted_aliases ?pairs (canonical_lot_id r))"
    by (rule consolidate_logs_consolidated_rows[OF assms])
  have "set (sorted_aliases ?pairs (canonical_lot_id r)) =
      {py_str (raw_lot_id x) | x. x \<in> set (production result) \<and>
                canonical_lot_id x \<noteq> None \<and> canonical_lot_id x = canonical_lot_id r} \<union>
      {py_str (raw_lot_id x) | x. x \<in> set (shipping result) \<and>
                canonical_lot_id x \<noteq> None \<and> canonical_lot_id x = canonical_lot_id r}"
    unfolding conjunct2[OF conjunct2[OF sorted_aliases_Some]] set_append set_alias_pairs
    by (cases "canonical_lot_id r") auto
  with a sorted_aliases_Some show ?thesis by metis
qed

text \<open>
  Claim C4. The claim: every consolidated row, those of the flagged-rows table included,
  carries \<open>raw_lot_aliases\<close>. The code copies the flagged rows out before it adds the
  column, so no row of \<open>flagged_rows\<close> has it (\<open>flagged_rows_have_no_aliases\<close>), while
  every row of \<open>consolidated\<close> has the aliases the claim describes
  (\<open>consolidated_rows_carry_aliases\<close>): a production lot with no shipping row is flagged,
  its row in \<open>flagged_rows\<close> has no aliases and its row in \<open>consolidated\<close> has them.
\<close>

theorem consolidate_logs_flagged_rows_lack_aliases:
  "map_sum id (\<lambda>result. map raw_lot_aliases (flagged_rows result))
           (consolidate_logs sample_to_datetime unshipped_production clean_shipping True) = Inr [None] \<and>
   map_sum id (\<lambda>result. map raw_lot_aliases (consolidated result))
           (consolidate_logs sample_to_datetime unshipped_production clean_shipping True) = Inr [Some [''LOT-20260205-001'']] \<and>
   map_sum id (\<lambda>result. map needs_review (flagged_rows result))
           (consolidate_logs sample_to_datetime unshipped_production clean_shipping True) = Inr [True]"
  by code_simp

subsection \<open>Conflict records\<close>

lemma conflict_of_lot_both_sides:
  assumes "1 < length (dropna_unique (map production_row.production_line (get_group lot prod_t))) \<or>
           1 < length (dropna_unique (map shipping_row.ship_status (get_group lot ship_t)))"
    and "lot \<in> set (group_keys prod_t)" "lot \<in> set (group_keys ship_t)"
  shows "conflict_of_lot prod_t ship_t lot =
     Inr (Some \<lparr>conflict_record.canonical_lot_id = lot,
                conflict_production_lines =
                  sort (dropna_unique (map production_row.production_line (get_group lot prod_t))),
                conflict_ship_statuses =
                  sort (dropna_unique (map shipping_row.ship_status (get_group lot ship_t))),
                production_sources = source_records (get_group lot prod_t),
                shipping_sources = source_records (get_group lot ship_t)\<rparr>)"
  using assms by (simp add: conflict_of_lot_def Let_def)

lemma conflict_of_lot_no_production_rows:
  assumes "1 < length (dropna_unique (map shipping_row.ship_status (get_group lot ship_t)))"
    and "lot \<notin> set (group_keys prod_t)" "lot \<in> set (group_keys ship_t)"
  shows "conflict_of_lot prod_t ship_t lot = Inl KeyError"
  using assms by (simp add: conflict_of_lot_def Let_def)

lemma conflict_of_lot_no_shipping_rows:
  assumes "1 < length (dropna_unique (map production_row.production_line (get_group lot prod_t)))"
    and "lot \<in> set (group_keys prod_t)" "lot \<notin> set (group_keys ship_t)"
  shows "conflict_of_lot prod_t ship_t lot = Inl KeyError"
  using assms by (simp add: conflict_of_lot_def Let_def)

lemma conflict_of_lot_Some:
  assumes "conflict_of_lot prod_t ship_t lot = Inr (Some entry)"
  shows "conflict_record.canonical_lot_id entry = lot"
    and "1 < length (conflict_production_lines entry) \<or> 1 < length (conflict_ship_statuses entry)"
    and "conflict_production_lines entry =
           sort (dropna_unique (map production_row.production_line (get_group lot prod_t)))"
    and "conflict_ship_statuses entry =
           sort (dropna_unique (map shipping_row.ship_status (get_group lot ship_t)))"
    and "production_sources entry = source_records (get_group lot prod_t)"
    and "shipping_sources entry = source_records (get_group lot ship_t)"
  using assms by (auto simp: conflict_of_lot_def Let_def split: if_splits)

lemma get_group_empty: "lot \<notin> set (group_keys rows) \<Longrightarrow> get_group lot rows = []"
  by (induction rows) (auto simp: group_keys_def get_group_def split: option.splits)

lemma conflict_of_lot_None:
  assumes "conflict_of_lot prod_t ship_t lot = Inr None"
  shows "length (dropna_unique (map production_row.production_line (get_group lot prod_t))) \<le> 1"
    and "length (dropna_unique (map shipping_row.ship_status (get_group lot ship_t))) \<le> 1"
proof -
  have "\<not> (1 < length (dropna_unique (map production_row.production_line
                (if lot \<in> set (group_keys prod_t) then get_group lot prod_t else []))) \<or>
            1 < length (dropna_unique (map shipping_row.ship_status
                (if lot \<in> set (group_keys ship_t) then get_group lot ship_t else []))))"
    using assms by (auto simp: conflict_of_lot_def Let_def split: if_splits)
  then show "length (dropna_unique (map production_row.production_line (get_group lot prod_t))) \<le> 1"
    and "length (dropna_unique (map shipping_row.ship_status (get_group lot ship_t))) \<le> 1"
    by (auto simp: get_group_empty split: if_splits)
qed

lemma collect_conflicts_lots:
  "collect_conflicts prod_t ship_t lots = Inr records \<Longrightarrow>
   map conflict_record.canonical_lot_id records =
     filter (\<lambda>lot. 1 < length (dropna_unique (map production_row.production_line (get_group lot prod_t))) \<or>
                    1 < length (dropna_unique (map shipping_row.ship_status (get_group lot ship_t)))) lots"
proof (induction lots arbitrary: records)
  case Nil
  then show ?case by simp
next
  case (Cons lot lots)
  from Cons.prems obtain found rest where
    f: "conflict_of_lot prod_t ship_t lot = Inr found"
    and r: "collect_conflicts prod_t ship_t lots = Inr rest"
    and rs: "records = (case found of None \<Rightarrow> rest | Some entry \<Rightarrow> entry # rest)"
    by (auto split: sum.splits)
  show ?case
  proof (cases found)
    case None
    with f conflict_of_lot_None[of prod_t ship_t lot] Cons.IH[OF r] rs show ?thesis
      by auto
  next
    case (Some entry)
    with f conflict_of_lot_Some[of prod_t ship_t lot entry] Cons.IH[OF r] rs show ?thesis
      by auto
  qed
qed

lemma detect_conflicts_lots:
  assumes "detect_conflicts prod_t ship_t = Inr records"
  shows "distinct (map conflict_record.canonical_lot_id records)"
    and "sorted (map conflict_record.canonical_lot_id records)"
    and "set (map conflict_record.canonical_lot_id records) =
      {lot \<in> set (group_keys prod_t) \<union> set (group_keys ship_t).
         1 < length (dropna_unique (map production_row.production_line (get_group lot prod_t))) \<or>
         1 < length (dropna_unique (map shipping_row.ship_status (get_group lot ship_t)))}"
  using collect_conflicts_lots[OF assms[unfolded detect_conflicts_def]]
  by (auto simp: sorted_filter[where f="\<lambda>x. x", simplified])

text \<open>
  Claim C5. The claim: \<open>_detect_conflicts\<close> emits one record for each lot whose production
  rows have more than one line or whose shipping rows have more than one status. When the
  code returns, that is what it returns (\<open>detect_conflicts_lots\<close>, \<open>conflict_of_lot_Some\<close>).
  For a conflicted lot with rows in one table only it raises \<open>KeyError\<close> instead
  (\<open>conflict_of_lot_no_production_rows\<close>, \<open>conflict_of_lot_no_shipping_rows\<close>): two
  shipping rows of a lot with the statuses \<open>On Hold\<close> and \<open>Partial\<close>, and no production
  row of that lot.
\<close>

theorem detect_conflicts_one_sided_lot_raises:
  "detect_conflicts (prepare_production sample_to_datetime clean_production)
     (prepare_shipping sample_to_datetime conflicting_shipping) = Inl KeyError \<and>
   consolidate_logs sample_to_datetime clean_production conflicting_shipping True = Inl KeyError \<and>
   map canonical_lot_id (prepare_production sample_to_datetime clean_production) = [Some ''LOT-20260202-001''] \<and>
   map canonical_lot_id (prepare_shipping sample_to_datetime conflicting_shipping) = [Some ''LOT-20260203-001'', Some ''LOT-20260203-001''] \<and>
   map shipping_row.ship_status (prepare_shipping sample_to_datetime conflicting_shipping) = [CStr ''On Hold'', CStr ''Partial'']"
  by code_simp

end
